theory Spec2Isabelle
  imports Main "HOL-Library.Word"
begin

unbundle bit_operations_syntax

section \<open>Response cache of the DNS proxy (\<^verbatim>\<open>dnscrypt-proxy/plugin_cache.go\<close>)\<close>

text \<open>
  The development follows the Go file: the key derivation \<^verbatim>\<open>computeCacheKey\<close>, the
  reader plugin \<^verbatim>\<open>PluginCache.Eval\<close> and the writer plugin
  \<^verbatim>\<open>PluginCacheResponse.Eval\<close>. Bytes and the 16-bit question codes are machine
  words; \<^verbatim>\<open>time.Time\<close> and \<^verbatim>\<open>time.Duration\<close> are integers counting nanoseconds;
  the record objects a message points to live in an explicit heap, because the writer keeps
  a shallow copy of the message and the reader a deep one.
\<close>

type_synonym byte = "8 word"
type_synonym u16 = "16 word"
type_synonym u64 = "64 word"

subsection \<open>The digest \<^verbatim>\<open>crypto/sha512.New512_256\<close> (FIPS 180-4, SHA-512/256)\<close>

text \<open>
  The Go standard library is not part of the repository; the digest is written out from
  FIPS 180-4 so that the key is a concrete, computable value. \<open>sha512_K\<close> holds the eighty
  round constants and \<open>sha512_256_init\<close> the initial hash value of SHA-512/256; each
  64-bit constant is written as its upper and its lower half.
\<close>

type_synonym sha512_state = "u64 \<times> u64 \<times> u64 \<times> u64 \<times> u64 \<times> u64 \<times> u64 \<times> u64"

definition hilo :: "u64 \<Rightarrow> u64 \<Rightarrow> u64" where
  "hilo hi lo = hi * 0x100000000 + lo"

definition sha512_K :: "u64 list" where
  "sha512_K = [
     hilo 0x428a2f98 0xd728ae22, hilo 0x71374491 0x23ef65cd,
     hilo 0xb5c0fbcf 0xec4d3b2f, hilo 0xe9b5dba5 0x8189dbbc,
     hilo 0x3956c25b 0xf348b538, hilo 0x59f111f1 0xb605d019,
     hilo 0x923f82a4 0xaf194f9b, hilo 0xab1c5ed5 0xda6d8118,
     hilo 0xd807aa98 0xa3030242, hilo 0x12835b01 0x45706fbe,
     hilo 0x243185be 0x4ee4b28c, hilo 0x550c7dc3 0xd5ffb4e2,
     hilo 0x72be5d74 0xf27b896f, hilo 0x80deb1fe 0x3b1696b1,
     hilo 0x9bdc06a7 0x25c71235, hilo 0xc19bf174 0xcf692694,
     hilo 0xe49b69c1 0x9ef14ad2, hilo 0xefbe4786 0x384f25e3,
     hilo 0x0fc19dc6 0x8b8cd5b5, hilo 0x240ca1cc 0x77ac9c65,
     hilo 0x2de92c6f 0x592b0275, hilo 0x4a7484aa 0x6ea6e483,
     hilo 0x5cb0a9dc 0xbd41fbd4, hilo 0x76f988da 0x831153b5,
     hilo 0x983e5152 0xee66dfab, hilo 0xa831c66d 0x2db43210,
     hilo 0xb00327c8 0x98fb213f, hilo 0xbf597fc7 0xbeef0ee4,
     hilo 0xc6e00bf3 0x3da88fc2, hilo 0xd5a79147 0x930aa725,
     hilo 0x06ca6351 0xe003826f, hilo 0x14292967 0x0a0e6e70,
     hilo 0x27b70a85 0x46d22ffc, hilo 0x2e1b2138 0x5c26c926,
     hilo 0x4d2c6dfc 0x5ac42aed, hilo 0x53380d13 0x9d95b3df,
     hilo 0x650a7354 0x8baf63de, hilo 0x766a0abb 0x3c77b2a8,
     hilo 0x81c2c92e 0x47edaee6, hilo 0x92722c85 0x1482353b,
     hilo 0xa2bfe8a1 0x4cf10364, hilo 0xa81a664b 0xbc423001,
     hilo 0xc24b8b70 0xd0f89791, hilo 0xc76c51a3 0x0654be30,
     hilo 0xd192e819 0xd6ef5218, hilo 0xd6990624 0x5565a910,
     hilo 0xf40e3585 0x5771202a, hilo 0x106aa070 0x32bbd1b8,
     hilo 0x19a4c116 0xb8d2d0c8, hilo 0x1e376c08 0x5141ab53,
     hilo 0x2748774c 0xdf8eeb99, hilo 0x34b0bcb5 0xe19b48a8,
     hilo 0x391c0cb3 0xc5c95a63, hilo 0x4ed8aa4a 0xe3418acb,
     hilo 0x5b9cca4f 0x7763e373, hilo 0x682e6ff3 0xd6b2b8a3,
     hilo 0x748f82ee 0x5defb2fc, hilo 0x78a5636f 0x43172f60,
     hilo 0x84c87814 0xa1f0ab72, hilo 0x8cc70208 0x1a6439ec,
     hilo 0x90befffa 0x23631e28, hilo 0xa4506ceb 0xde82bde9,
     hilo 0xbef9a3f7 0xb2c67915, hilo 0xc67178f2 0xe372532b,
     hilo 0xca273ece 0xea26619c, hilo 0xd186b8c7 0x21c0c207,
     hilo 0xeada7dd6 0xcde0eb1e, hilo 0xf57d4f7f 0xee6ed178,
     hilo 0x06f067aa 0x72176fba, hilo 0x0a637dc5 0xa2c898a6,
     hilo 0x113f9804 0xbef90dae, hilo 0x1b710b35 0x131c471b,
     hilo 0x28db77f5 0x23047d84, hilo 0x32caab7b 0x40c72493,
     hilo 0x3c9ebe0a 0x15c9bebc, hilo 0x431d67c4 0x9c100d4c,
     hilo 0x4cc5d4be 0xcb3e42b6, hilo 0x597f299c 0xfc657e2a,
     hilo 0x5fcb6fab 0x3ad6faec, hilo 0x6c44198c 0x4a475817]"

definition sha512_256_init :: sha512_state where
  "sha512_256_init = (
     hilo 0x22312194 0xfc2bf72c, hilo 0x9f555fa3 0xc84c64c2,
     hilo 0x2393b86b 0x6f53b151, hilo 0x96387719 0x5940eabd,
     hilo 0x96283ee2 0xa88effe3, hilo 0xbe5e1e25 0x53863992,
     hilo 0x2b0199fc 0x2c85b8aa, hilo 0x0eb72ddc 0x81c52ca2)"

definition Ch :: "u64 \<Rightarrow> u64 \<Rightarrow> u64 \<Rightarrow> u64" where
  "Ch x y z = (x AND y) XOR (NOT x AND z)"

definition Maj :: "u64 \<Rightarrow> u64 \<Rightarrow> u64 \<Rightarrow> u64" where
  "Maj x y z = (x AND y) XOR (x AND z) XOR (y AND z)"

definition Sigma0 :: "u64 \<Rightarrow> u64" where
  "Sigma0 x = word_rotr 28 x XOR word_rotr 34 x XOR word_rotr 39 x"

definition Sigma1 :: "u64 \<Rightarrow> u64" where
  "Sigma1 x = word_rotr 14 x XOR word_rotr 18 x XOR word_rotr 41 x"

definition sigma0 :: "u64 \<Rightarrow> u64" where
  "sigma0 x = word_rotr 1 x XOR word_rotr 8 x XOR drop_bit 7 x"

definition sigma1 :: "u64 \<Rightarrow> u64" where
  "sigma1 x = word_rotr 19 x XOR word_rotr 61 x XOR drop_bit 6 x"

text \<open>Big-endian conversions between bytes and 64-bit words.\<close>

definition be_word64 :: "byte list \<Rightarrow> u64" where
  "be_word64 bs = foldl (\<lambda>acc b. push_bit 8 acc OR ucast b) 0 bs"

definition be_bytes64 :: "u64 \<Rightarrow> byte list" where
  "be_bytes64 x = map (\<lambda>i. ucast (drop_bit (8 * i) x)) [7, 6, 5, 4, 3, 2, 1, 0]"

text \<open>
  Padding: the byte \<open>0x80\<close>, zero bytes up to 112 modulo 128, then the length of the
  message in bits as a 128-bit big-endian number.
\<close>

definition sha512_pad :: "byte list \<Rightarrow> byte list" where
  "sha512_pad m =
     m @ [0x80] @ replicate ((128 - (length m + 17) mod 128) mod 128) 0 @
     map (\<lambda>i. ucast (drop_bit (8 * i) (of_nat (8 * length m) :: 128 word))) (rev [0..<16])"

definition sha512_blocks :: "byte list \<Rightarrow> byte list list" where
  "sha512_blocks p = map (\<lambda>i. take 128 (drop (128 * i) p)) [0..<length p div 128]"

definition block_words :: "byte list \<Rightarrow> u64 list" where
  "block_words blk = map (\<lambda>i. be_word64 (take 8 (drop (8 * i) blk))) [0..<16]"

text \<open>The message schedule: \<open>n\<close> further words appended to the words so far.\<close>

fun sha512_schedule :: "nat \<Rightarrow> u64 list \<Rightarrow> u64 list" where
  "sha512_schedule 0 W = W"
| "sha512_schedule (Suc n) W =
     (let t = length W
      in sha512_schedule n
           (W @ [sigma1 (W ! (t - 2)) + W ! (t - 7) + sigma0 (W ! (t - 15)) + W ! (t - 16)]))"

fun sha512_round :: "u64 \<times> u64 \<Rightarrow> sha512_state \<Rightarrow> sha512_state" where
  "sha512_round (k, w) (a, b, c, d, e, f, g, h) =
     (let T1 = h + Sigma1 e + Ch e f g + k + w;
          T2 = Sigma0 a + Maj a b c
      in (T1 + T2, a, b, c, d + T1, e, f, g))"

fun sha512_add :: "sha512_state \<Rightarrow> sha512_state \<Rightarrow> sha512_state" where
  "sha512_add (a, b, c, d, e, f, g, h) (a', b', c', d', e', f', g', h') =
     (a + a', b + b', c + c', d + d', e + e', f + f', g + g', h + h')"

definition sha512_compress :: "byte list \<Rightarrow> sha512_state \<Rightarrow> sha512_state" where
  "sha512_compress blk H =
     sha512_add H (fold sha512_round (zip sha512_K (sha512_schedule 64 (block_words blk))) H)"

fun sha512_256_output :: "sha512_state \<Rightarrow> byte list" where
  "sha512_256_output (a, b, c, d, e, f, g, h) =
     be_bytes64 a @ be_bytes64 b @ be_bytes64 c @ be_bytes64 d"

definition sha512_256 :: "byte list \<Rightarrow> byte list" where
  "sha512_256 m =
     sha512_256_output (fold sha512_compress (sha512_blocks (sha512_pad m)) sha512_256_init)"


subsection \<open>The streaming interface of the digest (\<^verbatim>\<open>hash.Hash\<close>)\<close>

text \<open>
  A digest value is the sequence of bytes written so far; \<^verbatim>\<open>Write\<close> appends and
  \<^verbatim>\<open>Sum(b)\<close> appends the digest of everything written to \<open>b\<close>.
\<close>

type_synonym digest = "byte list"

definition New512_256 :: digest where
  "New512_256 = []"

definition digest_Write :: "digest \<Rightarrow> byte list \<Rightarrow> digest" where
  "digest_Write h p = h @ p"

definition digest_Sum :: "digest \<Rightarrow> byte list \<Rightarrow> byte list" where
  "digest_Sum h b = b @ sha512_256 h"

subsection \<open>DNS messages (\<^verbatim>\<open>github.com/miekg/dns\<close>)\<close>

text \<open>
  \<^verbatim>\<open>dns.Msg\<close> holds its header fields and its question section by value and its three
  record sections as slices of pointers to record objects. A record object is an element of
  the heap and a pointer is its index, so that a struct copy of a message (\<^verbatim>\<open>*msg\<close>)
  shares the record objects while \<^verbatim>\<open>Copy()\<close> allocates new ones. The field
  \<^verbatim>\<open>Id\<close> is called \<open>MsgId\<close> here. A record's time to live is kept as a duration
  in nanoseconds, the unit of \<^verbatim>\<open>time.Duration\<close>. A slice is the list of its elements;
  no code of this file assigns to an element of a slice that two messages share.
\<close>

record Question =
  Name :: "byte list"
  Qtype :: u16
  Qclass :: u16

record RR =
  RR_Name :: "byte list"
  Rrtype :: u16
  Class :: u16
  Ttl :: int
  Rdata :: "byte list"

type_synonym addr = nat
type_synonym heap = "RR list"

record Msg =
  MsgId :: u16
  Response :: bool
  Opcode :: int
  Authoritative :: bool
  Truncated :: bool
  RecursionDesired :: bool
  RecursionAvailable :: bool
  Zero :: bool
  AuthenticatedData :: bool
  CheckingDisabled :: bool
  Rcode :: int
  Compress :: bool
  Question :: "Question list"
  Answer :: "addr list"
  Ns :: "addr list"
  Extra :: "addr list"

definition RcodeSuccess :: int where "RcodeSuccess = 0"
definition RcodeNameError :: int where "RcodeNameError = 3"
definition RcodeNotAuth :: int where "RcodeNotAuth = 9"

text \<open>The pointers a message holds, and the records they point to.\<close>

definition msg_addrs :: "Msg \<Rightarrow> addr list" where
  "msg_addrs m = Answer m @ Ns m @ Extra m"

definition msg_records :: "heap \<Rightarrow> Msg \<Rightarrow> RR list \<times> RR list \<times> RR list" where
  "msg_records h m = (map ((!) h) (Answer m), map ((!) h) (Ns m), map ((!) h) (Extra m))"

definition msg_wf :: "heap \<Rightarrow> Msg \<Rightarrow> bool" where
  "msg_wf h m = list_all (\<lambda>a. a < length h) (msg_addrs m)"

text \<open>
  \<^verbatim>\<open>Msg.Copy()\<close>: the header, the compression flag and the questions are copied by
  value; every record of the answer, authority and additional sections is copied into a
  newly allocated object, in this order.
\<close>

definition Msg_Copy :: "heap \<Rightarrow> Msg \<Rightarrow> Msg \<times> heap" where
  "Msg_Copy h m =
     (let n = length h;
          a = length (Answer m);
          b = length (Ns m);
          c = length (Extra m)
      in (m\<lparr>Answer := [n ..< n + a],
            Ns := [n + a ..< n + a + b],
            Extra := [n + a + b ..< n + a + b + c]\<rparr>,
          h @ map ((!) h) (Answer m @ Ns m @ Extra m)))"

subsection \<open>Time\<close>

text \<open>
  \<^verbatim>\<open>time.Time\<close> and \<^verbatim>\<open>time.Duration\<close> count nanoseconds. One call of a plugin
  reads the clock several times; a clock maps the number of the reading within the call to
  the time read. \<open>at now\<close> is the clock of a call that happens at the single instant
  \<open>now\<close>.
\<close>

type_synonym clock = "nat \<Rightarrow> int"

definition at :: "int \<Rightarrow> clock" where
  "at now = (\<lambda>_. now)"

definition Second :: int where
  "Second = 1000000000"

definition StaleResponseTTL :: int where
  "StaleResponseTTL = 30 * Second"

subsection \<open>Helpers of the repository that are outside this file\<close>

text \<open>
  Modelled from the spec: \<^verbatim>\<open>NormalizeRawQName\<close> is defined in another file of the
  repository. The specification says that normalisation lower-cases the ASCII letters and
  leaves all other bytes unchanged.
\<close>

definition NormalizeRawQName :: "byte list \<Rightarrow> byte list" where
  "NormalizeRawQName name = map (\<lambda>c. if 0x41 \<le> c \<and> c \<le> 0x5A then c + 0x20 else c) name"

text \<open>
  Modelled from the spec: \<^verbatim>\<open>updateTTL\<close> is defined in another file of the repository.
  The specification says that it rewrites the record TTLs of the message to the remaining
  time until the given expiration; it names neither a rounding nor an exempted record, so
  every record of the three sections receives the difference between the expiration and
  the time \<open>now\<close> read by the helper.
\<close>

definition updateTTL :: "int \<Rightarrow> heap \<Rightarrow> Msg \<Rightarrow> int \<Rightarrow> heap" where
  "updateTTL now h m expiration =
     fold (\<lambda>a h'. h'[a := (h' ! a)\<lparr>Ttl := expiration - now\<rparr>]) (msg_addrs m) h"

text \<open>
  \<^verbatim>\<open>getMinTTL\<close>, the freshness policy, is defined in another file of the repository as
  well. The plugins only pass its result on, so the policy is a parameter of the writer:
  a function of the records, the message and the four configured bounds.
\<close>

type_synonym ttl_policy = "heap \<Rightarrow> Msg \<Rightarrow> nat \<Rightarrow> nat \<Rightarrow> nat \<Rightarrow> nat \<Rightarrow> int"

subsection \<open>The eviction store (\<^verbatim>\<open>sievecache.ShardedSieveCache\<close>)\<close>

text \<open>
  The store is an external library. It is modelled by its interface: construction fails
  for a capacity that is not positive, \<^verbatim>\<open>Get\<close> looks a key up, and \<^verbatim>\<open>Insert\<close>
  binds the key after discarding the entries the store chooses to evict. The choice is
  the parameter \<open>ev\<close>, so every result holds for every eviction policy. The fields of
  \<^verbatim>\<open>CachedResponse\<close> carry the prefix \<open>cr_\<close>. The marks the
  store keeps for its own eviction decisions are not part of the model. Calls are
  modelled one after the other; the locking inside the store and inside \<^verbatim>\<open>sync.Once\<close>
  is not.
\<close>

record CachedResponse =
  cr_expiration :: int
  cr_msg :: Msg

record ShardedSieveCache =
  capacity :: int
  entries :: "(byte list \<times> CachedResponse) list"

type_synonym eviction = "ShardedSieveCache \<Rightarrow> byte list \<Rightarrow> byte list list"

datatype sieve_error = CapacityNotPositive

definition NewSharded :: "int \<Rightarrow> sieve_error + ShardedSieveCache" where
  "NewSharded n =
     (if n \<le> 0 then Inl CapacityNotPositive
      else Inr \<lparr>capacity = n, entries = []\<rparr>)"

definition Get :: "ShardedSieveCache \<Rightarrow> byte list \<Rightarrow> CachedResponse option" where
  "Get c k = map_of (entries c) k"

definition Insert :: "eviction \<Rightarrow> ShardedSieveCache \<Rightarrow> byte list \<Rightarrow> CachedResponse \<Rightarrow> ShardedSieveCache" where
  "Insert ev c k v =
     c\<lparr>entries := (k, v) # filter (\<lambda>(k', _). k' \<noteq> k \<and> k' \<notin> set (ev c k)) (entries c)\<rparr>"

subsection \<open>Program state\<close>

text \<open>
  \<^verbatim>\<open>CachedResponses\<close> is the global \<^verbatim>\<open>cachedResponses\<close>: the store pointer
  (\<open>None\<close> is \<^verbatim>\<open>nil\<close>) and the \<^verbatim>\<open>sync.Once\<close>, which is the flag that \<^verbatim>\<open>Do\<close> has
  run. The mutex field is never locked in this file and is left out.
\<close>

record CachedResponses =
  cache :: "ShardedSieveCache option"
  cacheOnce :: bool

record world =
  heap :: heap
  cachedResponses :: CachedResponses

text \<open>
  \<^verbatim>\<open>PluginsState\<close> is declared in another file; these are the fields this file uses.
  Of the action codes only \<^verbatim>\<open>PluginsActionSynth\<close> occurs here.
\<close>

datatype PluginsAction = PluginsActionSynth | PluginsActionOther nat

record PluginsState =
  dnssec :: bool
  sessionData :: "string \<rightharpoonup> Msg"
  synthResponse :: "Msg option"
  action :: PluginsAction
  cacheHit :: bool
  cacheSize :: int
  cacheMinTTL :: nat
  cacheMaxTTL :: nat
  cacheNegMinTTL :: nat
  cacheNegMaxTTL :: nat

datatype panic = IndexOutOfRange

datatype go_error = CacheInitError sieve_error

subsection \<open>\<^verbatim>\<open>computeCacheKey\<close>\<close>

text \<open>
  \<^verbatim>\<open>binary.LittleEndian.PutUint16(b[off:off+2], v)\<close> stores \<^verbatim>\<open>byte(v)\<close> and then
  \<^verbatim>\<open>byte(v >> 8)\<close>.
\<close>

definition PutUint16 :: "byte list \<Rightarrow> nat \<Rightarrow> u16 \<Rightarrow> byte list" where
  "PutUint16 b off v = b[off := ucast v, off + 1 := ucast (drop_bit 8 v)]"

text \<open>\<^verbatim>\<open>msg.Question[0]\<close> panics when the question section is empty.\<close>

definition computeCacheKey :: "PluginsState \<Rightarrow> Msg \<Rightarrow> panic + byte list" where
  "computeCacheKey pluginsState msg =
     (case Question msg of
        [] \<Rightarrow> Inl IndexOutOfRange
      | question # _ \<Rightarrow>
          (let h = New512_256;
               tmp = replicate 5 0;
               tmp = PutUint16 tmp 0 (Qtype question);
               tmp = PutUint16 tmp 2 (Qclass question);
               tmp = (if dnssec pluginsState then tmp[4 := 1] else tmp);
               h = digest_Write h tmp;
               normalizedRawQName = NormalizeRawQName (Name question);
               h = digest_Write h normalizedRawQName
           in Inr (digest_Sum h [])))"

subsection \<open>\<^verbatim>\<open>PluginCache.Eval\<close>, the reader\<close>

text \<open>
  The result is a panic, or the returned error (\<open>None\<close> is \<^verbatim>\<open>nil\<close>) with the world and
  the plugin state after the call. The clock is read by \<^verbatim>\<open>time.Now().After\<close>, then
  either by \<^verbatim>\<open>time.Now().Add\<close> and \<^verbatim>\<open>updateTTL\<close> or by \<^verbatim>\<open>updateTTL\<close> alone.
\<close>

definition PluginCache_Eval ::
  "clock \<Rightarrow> world \<Rightarrow> PluginsState \<Rightarrow> Msg \<Rightarrow> panic + (go_error option \<times> world \<times> PluginsState)" where
  "PluginCache_Eval clk w pluginsState msg =
     (case computeCacheKey pluginsState msg of
        Inl p \<Rightarrow> Inl p
      | Inr cacheKey \<Rightarrow>
          (case cache (cachedResponses w) of
             None \<Rightarrow> Inr (None, w, pluginsState)
           | Some c \<Rightarrow>
               (case Get c cacheKey of
                  None \<Rightarrow> Inr (None, w, pluginsState)
                | Some cached \<Rightarrow>
                    (let expiration = cr_expiration cached;
                         (synth, h1) = Msg_Copy (heap w) (cr_msg cached);
                         synth = synth\<lparr>MsgId := MsgId msg\<rparr>;
                         synth = synth\<lparr>Response := True\<rparr>;
                         synth = synth\<lparr>Compress := True\<rparr>;
                         synth = synth\<lparr>Question := Question msg\<rparr>
                     in if clk 0 > expiration then
                          (let expiration2 = clk 1 + StaleResponseTTL;
                               h2 = updateTTL (clk 2) h1 synth expiration2
                           in Inr (None, w\<lparr>heap := h2\<rparr>,
                                   pluginsState\<lparr>sessionData := (sessionData pluginsState)(''stale'' \<mapsto> synth)\<rparr>))
                        else
                          (let h2 = updateTTL (clk 1) h1 synth expiration
                           in Inr (None, w\<lparr>heap := h2\<rparr>,
                                   pluginsState\<lparr>synthResponse := Some synth,
                                                action := PluginsActionSynth,
                                                cacheHit := True\<rparr>))))))"

subsection \<open>\<^verbatim>\<open>PluginCacheResponse.Eval\<close>, the writer\<close>

text \<open>
  \<open>cacheInit\<close> is the function literal handed to \<^verbatim>\<open>cacheOnce.Do\<close>; it acts on the
  local \<^verbatim>\<open>cacheInitError\<close> and on the global. \<^verbatim>\<open>Once.Do(f)\<close> calls \<open>f\<close> only if
  \<^verbatim>\<open>Do\<close> has not been called before, and has been called from then on, whatever \<open>f\<close>
  did.
\<close>

definition cacheInit ::
  "PluginsState \<Rightarrow> sieve_error option \<times> CachedResponses \<Rightarrow>
   sieve_error option \<times> CachedResponses" where
  "cacheInit pluginsState = (\<lambda>(cacheInitError, cr).
     case NewSharded (cacheSize pluginsState) of
       Inl err \<Rightarrow> (Some err, cr)
     | Inr c \<Rightarrow> (cacheInitError, cr\<lparr>cache := Some c\<rparr>))"

definition Once_Do ::
  "(sieve_error option \<times> CachedResponses \<Rightarrow> sieve_error option \<times> CachedResponses) \<Rightarrow>
   sieve_error option \<times> CachedResponses \<Rightarrow> sieve_error option \<times> CachedResponses" where
  "Once_Do f = (\<lambda>(v, cr).
     if cacheOnce cr then (v, cr)
     else (let (v', cr') = f (v, cr) in (v', cr'\<lparr>cacheOnce := True\<rparr>)))"

definition PluginCacheResponse_Eval ::
  "clock \<Rightarrow> ttl_policy \<Rightarrow> eviction \<Rightarrow> world \<Rightarrow> PluginsState \<Rightarrow> Msg \<Rightarrow>
   panic + (go_error option \<times> world)" where
  "PluginCacheResponse_Eval clk getMinTTL ev w pluginsState msg =
     (if Rcode msg \<noteq> RcodeSuccess \<and> Rcode msg \<noteq> RcodeNameError \<and> Rcode msg \<noteq> RcodeNotAuth
      then Inr (None, w)
      else if Truncated msg then Inr (None, w)
      else
        (case computeCacheKey pluginsState msg of
           Inl p \<Rightarrow> Inl p
         | Inr cacheKey \<Rightarrow>
             (let ttl = getMinTTL (heap w) msg (cacheMinTTL pluginsState) (cacheMaxTTL pluginsState)
                          (cacheNegMinTTL pluginsState) (cacheNegMaxTTL pluginsState);
                  cachedResponse = \<lparr>cr_expiration = clk 0 + ttl, cr_msg = msg\<rparr>;
                  (cacheInitError, cr) = Once_Do (cacheInit pluginsState) (None, cachedResponses w)
              in case cacheInitError of
                   Some err \<Rightarrow> Inr (Some (CacheInitError err), w\<lparr>cachedResponses := cr\<rparr>)
                 | None \<Rightarrow>
                     (let cr = (case cache cr of
                                  Some c \<Rightarrow> cr\<lparr>cache := Some (Insert ev c cacheKey cachedResponse)\<rparr>
                                | None \<Rightarrow> cr);
                          h = updateTTL (clk 1) (heap w) msg (cr_expiration cachedResponse)
                      in Inr (None, w\<lparr>cachedResponses := cr, heap := h\<rparr>)))))"

section \<open>The specification's notions\<close>

subsection \<open>Key derivation as the specification words it\<close>

text \<open>
  The header is the question type and the question class, each as two bytes with the less
  significant byte first, and one flag byte; the key is the digest of the header followed
  by the normalised name.
\<close>

definition le_bytes16 :: "u16 \<Rightarrow> byte list" where
  "le_bytes16 v = [of_nat (unat v mod 256), of_nat (unat v div 256)]"

definition spec_header :: "u16 \<Rightarrow> u16 \<Rightarrow> bool \<Rightarrow> byte list" where
  "spec_header qtype qclass dnssec_requested =
     le_bytes16 qtype @ le_bytes16 qclass @ [if dnssec_requested then 1 else 0]"

definition derive_spec :: "byte list \<Rightarrow> u16 \<Rightarrow> u16 \<Rightarrow> bool \<Rightarrow> byte list" where
  "derive_spec name qtype qclass dnssec_requested =
     sha512_256 (spec_header qtype qclass dnssec_requested @ NormalizeRawQName name)"

text \<open>
  Two names are equal up to ASCII case when they have the same length and agree byte by
  byte, except that one byte may be an upper-case letter where the other is its lower-case
  form.
\<close>

definition same_ignoring_case :: "byte \<Rightarrow> byte \<Rightarrow> bool" where
  "same_ignoring_case a b =
     (a = b \<or> (0x41 \<le> a \<and> a \<le> 0x5A \<and> b = a + 0x20) \<or>
      (0x41 \<le> b \<and> b \<le> 0x5A \<and> a = b + 0x20))"

definition names_equal_ignoring_case :: "byte list \<Rightarrow> byte list \<Rightarrow> bool" where
  "names_equal_ignoring_case n1 n2 = list_all2 same_ignoring_case n1 n2"

subsection \<open>Observations on messages and responses\<close>

definition cacheable :: "Msg \<Rightarrow> bool" where
  "cacheable m =
     ((Rcode m = RcodeSuccess \<or> Rcode m = RcodeNameError \<or> Rcode m = RcodeNotAuth) \<and>
      \<not> Truncated m)"

text \<open>The records of a message with every time to live replaced by \<open>t\<close>.\<close>

definition retimed :: "int \<Rightarrow> RR list \<times> RR list \<times> RR list \<Rightarrow> RR list \<times> RR list \<times> RR list" where
  "retimed t = (\<lambda>(an, ns, ex).
     (map (\<lambda>r. r\<lparr>Ttl := t\<rparr>) an, map (\<lambda>r. r\<lparr>Ttl := t\<rparr>) ns, map (\<lambda>r. r\<lparr>Ttl := t\<rparr>) ex))"

text \<open>
  A later stage of the pipeline that changes a record of a message does so through the
  pointer: the object at the address is replaced.
\<close>

definition mutate :: "heap \<Rightarrow> addr \<Rightarrow> RR \<Rightarrow> heap" where
  "mutate h a r = h[a := r]"

subsection \<open>Sample inputs\<close>

text \<open>
  A query for the address of \<^verbatim>\<open>example.com.\<close>, the same query spelled
  \<^verbatim>\<open>Example.COM.\<close>, an answer with one record, a configuration, the state of a process
  that has not written yet, a policy that answers the configured positive minimum, and a
  store that never evicts. \<open>Msg_zero\<close> is the zero value of \<^verbatim>\<open>dns.Msg\<close>.
\<close>

definition Msg_zero :: Msg where
  "Msg_zero = \<lparr>MsgId = 0, Response = False, Opcode = 0, Authoritative = False,
     Truncated = False, RecursionDesired = False, RecursionAvailable = False, Zero = False,
     AuthenticatedData = False, CheckingDisabled = False, Rcode = 0, Compress = False,
     Question = [], Answer = [], Ns = [], Extra = []\<rparr>"

definition ex_name :: "byte list" where
  "ex_name = [0x65, 0x78, 0x61, 0x6D, 0x70, 0x6C, 0x65, 0x2E, 0x63, 0x6F, 0x6D, 0x2E]"

definition ex_Name :: "byte list" where
  "ex_Name = [0x45, 0x78, 0x61, 0x6D, 0x70, 0x6C, 0x65, 0x2E, 0x43, 0x4F, 0x4D, 0x2E]"

definition ex_question :: Question where
  "ex_question = \<lparr>Name = ex_name, Qtype = 1, Qclass = 1\<rparr>"

definition ex_Question :: Question where
  "ex_Question = \<lparr>Name = ex_Name, Qtype = 1, Qclass = 1\<rparr>"

definition ex_query :: Msg where
  "ex_query = Msg_zero\<lparr>MsgId := 0x1234, RecursionDesired := True, Question := [ex_question]\<rparr>"

definition ex_Query :: Msg where
  "ex_Query = Msg_zero\<lparr>MsgId := 0x5678, CheckingDisabled := True, Question := [ex_Question]\<rparr>"

definition ex_rr :: RR where
  "ex_rr = \<lparr>RR_Name = ex_name, Rrtype = 1, Class = 1, Ttl = 300 * Second,
     Rdata = [93, 184, 216, 34]\<rparr>"

definition ex_response :: Msg where
  "ex_response = Msg_zero\<lparr>MsgId := 0x1234, Response := True, RecursionAvailable := True,
     Question := [ex_question], Answer := [0]\<rparr>"

definition ex_ps :: PluginsState where
  "ex_ps = \<lparr>dnssec = False, sessionData = Map.empty, synthResponse = None,
     action = PluginsActionOther 0, cacheHit = False, cacheSize = 16,
     cacheMinTTL = 60, cacheMaxTTL = 86400, cacheNegMinTTL = 60, cacheNegMaxTTL = 600\<rparr>"

definition ex_world :: world where
  "ex_world = \<lparr>heap = [ex_rr], cachedResponses = \<lparr>cache = None, cacheOnce = False\<rparr>\<rparr>"

definition ex_policy :: ttl_policy where
  "ex_policy h m minTTL maxTTL negMinTTL negMaxTTL = int minTTL * Second"

definition ex_ev :: eviction where
  "ex_ev c k = []"

definition ex_key :: "byte list" where
  "ex_key = sha512_256 ([1, 0, 1, 0, 0] @ ex_name)"

text \<open>The state after the answer has been recorded at second 40: it expires at second 100.\<close>

definition ex_entry :: CachedResponse where
  "ex_entry = \<lparr>cr_expiration = 100 * Second, cr_msg = ex_response\<rparr>"

definition ex_store :: ShardedSieveCache where
  "ex_store = \<lparr>capacity = 16, entries = [(ex_key, ex_entry)]\<rparr>"

definition ex_written :: world where
  "ex_written = \<lparr>heap = [ex_rr\<lparr>Ttl := 60 * Second\<rparr>],
     cachedResponses = \<lparr>cache = Some ex_store, cacheOnce = True\<rparr>\<rparr>"

text \<open>The record of the answer after a later stage of the pipeline has changed its data.\<close>

definition ex_rr_changed :: RR where
  "ex_rr_changed = ex_rr\<lparr>Ttl := 60 * Second, Rdata := [10, 0, 0, 1]\<rparr>"

text \<open>A state whose store exists and is empty.\<close>

definition ex_empty :: world where
  "ex_empty = \<lparr>heap = [], cachedResponses =
     \<lparr>cache = Some \<lparr>capacity = 16, entries = []\<rparr>, cacheOnce = True\<rparr>\<rparr>"

text \<open>The state after a first write with a capacity that is not positive.\<close>

definition ex_failed :: world where
  "ex_failed = \<lparr>heap = [ex_rr], cachedResponses = \<lparr>cache = None, cacheOnce = True\<rparr>\<rparr>"

text \<open>The copy of the recorded answer that the reader makes for \<open>ex_query\<close>.\<close>

definition ex_synth :: Msg where
  "ex_synth = ex_response\<lparr>Compress := True, Answer := [1]\<rparr>"

section \<open>Properties\<close>

subsection \<open>The digest\<close>

lemma length_be_bytes64: "length (be_bytes64 x) = 8"
  by (simp add: be_bytes64_def)

lemma length_sha512_256: "length (sha512_256 m) = 32"
proof -
  obtain a b c d e f g h where
    "fold sha512_compress (sha512_blocks (sha512_pad m)) sha512_256_init = (a, b, c, d, e, f, g, h)"
    by (metis prod_cases3)
  then show ?thesis
    by (simp add: sha512_256_def length_be_bytes64)
qed


text \<open>The digest of the three bytes \<^verbatim>\<open>abc\<close>, the published test vector of SHA-512/256.\<close>

lemma sha512_256_abc:
  "sha512_256 [0x61, 0x62, 0x63] =
     [0x53, 0x04, 0x8e, 0x26, 0x81, 0x94, 0x1e, 0xf9, 0x9b, 0x2e, 0x29, 0xb7, 0x6b, 0x4c, 0x7d, 0xab,
      0xe4, 0xc2, 0xd0, 0xc6, 0x34, 0xfc, 0x6d, 0x46, 0xe0, 0xe2, 0xf1, 0x31, 0x07, 0xe7, 0xaf, 0x23]"
  by code_simp

subsection \<open>Key derivation\<close>

lemma ucast_low_byte: "ucast (v::u16) = (of_nat (unat v mod 256) :: byte)"
  by (simp add: word_unat_eq_iff unsigned_ucast_eq unat_of_nat take_bit_eq_mod)

lemma ucast_high_byte: "ucast (drop_bit 8 (v::u16)) = (of_nat (unat v div 256) :: byte)"
proof -
  have "unat (drop_bit 8 v) = unat v div 256"
    unfolding unat_drop_bit_eq by (simp add: drop_bit_eq_div)
  then show ?thesis
    by (simp only: word_unat_eq_iff unsigned_ucast_eq unat_of_nat take_bit_eq_mod)
qed

lemma le_bytes16_ucast: "le_bytes16 v = [ucast v, ucast (drop_bit 8 v)]"
  by (simp only: le_bytes16_def flip: ucast_low_byte ucast_high_byte)

lemma PutUint16_0: "PutUint16 [a, b, c, d, e] 0 v = le_bytes16 v @ [c, d, e]"
  by (simp only: PutUint16_def le_bytes16_ucast list_update_code append_Cons append_Nil
      add_0 One_nat_def)

lemma PutUint16_2: "PutUint16 [a, b, c, d, e] 2 v = [a, b] @ le_bytes16 v @ [e]"
  by (simp only: PutUint16_def le_bytes16_ucast list_update_code append_Cons append_Nil
      numeral_2_eq_2 add_Suc add_0 One_nat_def)

lemma replicate5: "replicate 5 (0::byte) = [0, 0, 0, 0, 0]"
  by (simp add: numeral_eq_Suc)

lemma tmp_header:
  "(let tmp = replicate 5 0;
        tmp = PutUint16 tmp 0 qt;
        tmp = PutUint16 tmp 2 qc
    in (if d then tmp[4 := 1] else tmp)) = spec_header qt qc d"
  by (simp add: replicate5 PutUint16_0 PutUint16_2 spec_header_def le_bytes16_ucast)

lemma computeCacheKey_Cons:
  "Question msg = q # qs \<Longrightarrow>
   computeCacheKey ps msg = Inr (derive_spec (Name q) (Qtype q) (Qclass q) (dnssec ps))"
  using tmp_header [of "Qtype q" "Qclass q" "dnssec ps"]
  by (simp add: computeCacheKey_def derive_spec_def New512_256_def digest_Write_def
      digest_Sum_def Let_def)

lemma computeCacheKey_Nil: "Question msg = [] \<Longrightarrow> computeCacheKey ps msg = Inl IndexOutOfRange"
  by (simp add: computeCacheKey_def)

lemma length_spec_header: "length (spec_header qt qc d) = 5"
  by (simp add: spec_header_def le_bytes16_def)

lemma upper_shift_not_upper:
  "0x41 \<le> (a::byte) \<Longrightarrow> a \<le> 0x5A \<Longrightarrow> \<not> (0x41 \<le> a + 0x20 \<and> a + 0x20 \<le> 0x5A)"
  by unat_arith

lemma normalize_byte_eq:
  "same_ignoring_case a b \<Longrightarrow>
   (if 0x41 \<le> a \<and> a \<le> 0x5A then a + 0x20 else a) =
   (if 0x41 \<le> b \<and> b \<le> 0x5A then b + 0x20 else b)"
  unfolding same_ignoring_case_def using upper_shift_not_upper by auto

lemma NormalizeRawQName_eq:
  "names_equal_ignoring_case n1 n2 \<Longrightarrow> NormalizeRawQName n1 = NormalizeRawQName n2"
  unfolding names_equal_ignoring_case_def NormalizeRawQName_def
  by (induction n1 n2 rule: list_all2_induct) (simp_all add: normalize_byte_eq)

subsection \<open>Records in the heap\<close>

lemma length_fold_ttl:
  "length (fold (\<lambda>a h'. h'[a := (h' ! a)\<lparr>Ttl := t\<rparr>]) as h) = length h"
  by (induction as arbitrary: h) simp_all

lemma nth_fold_ttl:
  "a < length h \<Longrightarrow>
   fold (\<lambda>a h'. h'[a := (h' ! a)\<lparr>Ttl := t\<rparr>]) as h ! a =
     (if a \<in> set as then (h ! a)\<lparr>Ttl := t\<rparr> else h ! a)"
proof (induction as arbitrary: h)
  case Nil
  then show ?case by simp
next
  case (Cons x xs)
  let ?h = "h[x := (h ! x)\<lparr>Ttl := t\<rparr>]"
  have "a < length ?h" using Cons.prems by simp
  from Cons.IH [OF this] Cons.prems show ?case
    by (cases "a = x") (auto simp add: nth_list_update_neq)
qed

lemma length_updateTTL: "length (updateTTL now h m e) = length h"
  by (simp add: updateTTL_def length_fold_ttl)

lemma nth_updateTTL:
  "a < length h \<Longrightarrow>
   updateTTL now h m e ! a =
     (if a \<in> set (msg_addrs m) then (h ! a)\<lparr>Ttl := e - now\<rparr> else h ! a)"
  by (simp add: updateTTL_def nth_fold_ttl)

lemma updateTTL_fresh:
  assumes "set (msg_addrs s) = {n..<length h}" and "n \<le> length h"
  shows "updateTTL now h s e = take n h @ map (\<lambda>r. r\<lparr>Ttl := e - now\<rparr>) (drop n h)"
proof (rule nth_equalityI)
  show "length (updateTTL now h s e) = length (take n h @ map (\<lambda>r. r\<lparr>Ttl := e - now\<rparr>) (drop n h))"
    using assms(2) by (simp add: length_updateTTL)
next
  fix i assume "i < length (updateTTL now h s e)"
  then have i: "i < length h" by (simp add: length_updateTTL)
  show "updateTTL now h s e ! i = (take n h @ map (\<lambda>r. r\<lparr>Ttl := e - now\<rparr>) (drop n h)) ! i"
    using i assms by (auto simp add: nth_updateTTL nth_append)
qed

lemma map_nth_append_upt:
  "i + k \<le> length ys \<Longrightarrow>
   map ((!) (xs @ ys)) [length xs + i ..< length xs + i + k] = take k (drop i ys)"
  by (rule nth_equalityI) (simp_all add: nth_append)

lemma msg_records_mutate:
  "a \<notin> set (msg_addrs m) \<Longrightarrow> msg_records (mutate h a r) m = msg_records h m"
proof -
  assume a: "a \<notin> set (msg_addrs m)"
  have "\<And>x. x \<in> set (msg_addrs m) \<Longrightarrow> h[a := r] ! x = h ! x"
    using a by (metis nth_list_update_neq)
  then show ?thesis
    by (simp add: msg_records_def mutate_def msg_addrs_def)
qed



lemma Msg_Copy_Answer: "Answer (fst (Msg_Copy h m)) = [length h ..< length h + length (Answer m)]"
  by (simp add: Msg_Copy_def Let_def)

lemma Msg_Copy_Ns:
  "Ns (fst (Msg_Copy h m)) =
     [length h + length (Answer m) ..< length h + length (Answer m) + length (Ns m)]"
  by (simp add: Msg_Copy_def Let_def)

lemma Msg_Copy_Extra:
  "Extra (fst (Msg_Copy h m)) =
     [length h + length (Answer m) + length (Ns m) ..<
      length h + length (Answer m) + length (Ns m) + length (Extra m)]"
  by (simp add: Msg_Copy_def Let_def)

lemma Msg_Copy_heap: "snd (Msg_Copy h m) = h @ map ((!) h) (Answer m @ Ns m @ Extra m)"
  by (simp add: Msg_Copy_def Let_def)

lemma upt_split3:
  "[n ..< n + a] @ [n + a ..< n + a + b] @ [n + a + b ..< n + a + b + c] = [n ..< n + a + b + (c::nat)]"
  using upt_add_eq_append [of n "n + a" b] upt_add_eq_append [of n "n + a + b" c] by simp


lemma copy_addrs:
  assumes "Answer s = Answer (fst (Msg_Copy h stored))"
    and "Ns s = Ns (fst (Msg_Copy h stored))"
    and "Extra s = Extra (fst (Msg_Copy h stored))"
  shows "msg_addrs s = [length h ..< length (snd (Msg_Copy h stored))]"
proof -
  have "length (snd (Msg_Copy h stored)) =
          length h + length (Answer stored) + length (Ns stored) + length (Extra stored)"
    by (simp add: Msg_Copy_heap)
  then show ?thesis
    by (simp only: msg_addrs_def assms Msg_Copy_Answer Msg_Copy_Ns Msg_Copy_Extra upt_split3)
qed

lemma copy_heap_retimed:
  assumes "msg_addrs s = [length h ..< length (snd (Msg_Copy h stored))]"
  shows "updateTTL now (snd (Msg_Copy h stored)) s e =
           h @ map (\<lambda>r. r\<lparr>Ttl := e - now\<rparr>) (map ((!) h) (Answer stored @ Ns stored @ Extra stored))"
proof -
  have "set (msg_addrs s) = {length h ..< length (snd (Msg_Copy h stored))}"
    by (simp add: assms)
  moreover have "length h \<le> length (snd (Msg_Copy h stored))"
    by (simp add: Msg_Copy_heap)
  ultimately have "updateTTL now (snd (Msg_Copy h stored)) s e =
      take (length h) (snd (Msg_Copy h stored)) @
      map (\<lambda>r. r\<lparr>Ttl := e - now\<rparr>) (drop (length h) (snd (Msg_Copy h stored)))"
    by (rule updateTTL_fresh)
  then show ?thesis
    by (simp add: Msg_Copy_heap)
qed


lemma nth_upt_first:
  "map ((!) (h @ map f (as @ bs @ cs))) [length h ..< length h + length as] = map f as"
  by (rule nth_equalityI) (simp_all add: nth_append)

lemma nth_upt_second:
  "map ((!) (h @ map f (as @ bs @ cs))) [length h + length as ..< length h + length as + length bs]
     = map f bs"
  by (rule nth_equalityI) (simp_all add: nth_append)

lemma nth_upt_third:
  "map ((!) (h @ map f (as @ bs @ cs)))
     [length h + length as + length bs ..< length h + length as + length bs + length cs]
     = map f cs"
  by (rule nth_equalityI) (simp_all add: nth_append)

lemma copy_records_retimed:
  assumes "Answer s = Answer (fst (Msg_Copy h stored))"
    and "Ns s = Ns (fst (Msg_Copy h stored))"
    and "Extra s = Extra (fst (Msg_Copy h stored))"
  shows "msg_records (updateTTL now (snd (Msg_Copy h stored)) s e) s =
           retimed (e - now) (msg_records h stored)"
proof -
  let ?f = "\<lambda>a. (h ! a)\<lparr>Ttl := e - now\<rparr>"
  have "updateTTL now (snd (Msg_Copy h stored)) s e =
          h @ map ?f (Answer stored @ Ns stored @ Extra stored)"
    using copy_heap_retimed [OF copy_addrs [OF assms], of now e] by (simp add: comp_def)
  then show ?thesis
    by (simp only: msg_records_def retimed_def assms Msg_Copy_Answer Msg_Copy_Ns Msg_Copy_Extra
        nth_upt_first nth_upt_second nth_upt_third prod.case map_map comp_def)
qed

subsection \<open>The sample inputs evaluated\<close>

lemma le_bytes16_1: "le_bytes16 1 = [1, 0]"
  by (simp add: le_bytes16_def)

lemma Normalize_ex_name: "NormalizeRawQName ex_name = ex_name"
  by (simp add: NormalizeRawQName_def ex_name_def)

lemma Normalize_ex_Name: "NormalizeRawQName ex_Name = ex_name"
  by (simp add: NormalizeRawQName_def ex_name_def ex_Name_def)

lemma ex_names_equal: "names_equal_ignoring_case ex_Name ex_name"
  by (simp add: names_equal_ignoring_case_def same_ignoring_case_def ex_Name_def ex_name_def)

lemma ex_key_eq: "computeCacheKey ex_ps ex_query = Inr ex_key"
proof -
  have "Question ex_query = ex_question # []"
    by (simp add: ex_query_def)
  from computeCacheKey_Cons [OF this, of ex_ps] show ?thesis
    by (simp add: derive_spec_def spec_header_def le_bytes16_1 Normalize_ex_name
        ex_question_def ex_ps_def ex_key_def)
qed

subsection \<open>Panics\<close>

lemma reader_no_panic:
  "Question msg \<noteq> [] \<Longrightarrow> \<exists>r. PluginCache_Eval clk w ps msg = Inr r"
  by (cases "Question msg")
     (auto simp add: PluginCache_Eval_def computeCacheKey_Cons Let_def
        split: option.splits prod.splits)

lemma writer_no_panic:
  "Question msg \<noteq> [] \<Longrightarrow> \<exists>r. PluginCacheResponse_Eval clk getMinTTL ev w ps msg = Inr r"
  by (cases "Question msg")
     (auto simp add: PluginCacheResponse_Eval_def computeCacheKey_Cons Let_def
        split: option.splits prod.splits)

subsection \<open>The two plugins case by case\<close>

lemma reader_eval_hit:
  assumes "computeCacheKey ps msg = Inr k" and "cache (cachedResponses w) = Some c"
    and "Get c k = Some cached"
  shows "PluginCache_Eval clk w ps msg =
     (let synth = (fst (Msg_Copy (heap w) (cr_msg cached)))
                    \<lparr>MsgId := MsgId msg, Response := True, Compress := True,
                     Question := Question msg\<rparr>;
          h1 = snd (Msg_Copy (heap w) (cr_msg cached))
      in if cr_expiration cached < clk 0
         then Inr (None, w\<lparr>heap := updateTTL (clk 2) h1 synth (clk 1 + StaleResponseTTL)\<rparr>,
                   ps\<lparr>sessionData := (sessionData ps)(''stale'' \<mapsto> synth)\<rparr>)
         else Inr (None, w\<lparr>heap := updateTTL (clk 1) h1 synth (cr_expiration cached)\<rparr>,
                   ps\<lparr>synthResponse := Some synth, action := PluginsActionSynth,
                      cacheHit := True\<rparr>))"
  by (simp add: PluginCache_Eval_def assms Let_def case_prod_beta)


lemma writer_store_present:
  assumes "cacheable msg" and "computeCacheKey ps msg = Inr k"
    and "cacheOnce (cachedResponses w)" and "cache (cachedResponses w) = Some c"
  shows "PluginCacheResponse_Eval clk getMinTTL ev w ps msg =
     (let ttl = getMinTTL (heap w) msg (cacheMinTTL ps) (cacheMaxTTL ps) (cacheNegMinTTL ps)
                  (cacheNegMaxTTL ps)
      in Inr (None, w\<lparr>cachedResponses := (cachedResponses w)
                         \<lparr>cache := Some (Insert ev c k \<lparr>cr_expiration = clk 0 + ttl, cr_msg = msg\<rparr>)\<rparr>,
                       heap := updateTTL (clk 1) (heap w) msg (clk 0 + ttl)\<rparr>))"
  using assms
  by (auto simp add: PluginCacheResponse_Eval_def cacheable_def Once_Do_def Let_def)

lemma writer_first_call_constructs:
  assumes "cacheable msg" and "computeCacheKey ps msg = Inr k"
    and "\<not> cacheOnce (cachedResponses w)" and "0 < cacheSize ps"
  shows "PluginCacheResponse_Eval clk getMinTTL ev w ps msg =
     (let ttl = getMinTTL (heap w) msg (cacheMinTTL ps) (cacheMaxTTL ps) (cacheNegMinTTL ps)
                  (cacheNegMaxTTL ps)
      in Inr (None, w\<lparr>cachedResponses := (cachedResponses w)
                         \<lparr>cache := Some (Insert ev \<lparr>capacity = cacheSize ps, entries = []\<rparr> k
                                           \<lparr>cr_expiration = clk 0 + ttl, cr_msg = msg\<rparr>),
                          cacheOnce := True\<rparr>,
                       heap := updateTTL (clk 1) (heap w) msg (clk 0 + ttl)\<rparr>))"
  using assms
  by (auto simp add: PluginCacheResponse_Eval_def cacheable_def Once_Do_def cacheInit_def
      NewSharded_def Let_def)

lemma writer_first_call_fails:
  assumes "cacheable msg" and "computeCacheKey ps msg = Inr k"
    and "\<not> cacheOnce (cachedResponses w)" and "cacheSize ps \<le> 0"
  shows "PluginCacheResponse_Eval clk getMinTTL ev w ps msg =
     Inr (Some (CacheInitError CapacityNotPositive),
          w\<lparr>cachedResponses := (cachedResponses w)\<lparr>cacheOnce := True\<rparr>\<rparr>)"
  using assms
  by (auto simp add: PluginCacheResponse_Eval_def cacheable_def Once_Do_def cacheInit_def
      NewSharded_def Let_def)

lemma writer_store_absent:
  assumes "cacheable msg" and "computeCacheKey ps msg = Inr k"
    and "cacheOnce (cachedResponses w)" and "cache (cachedResponses w) = None"
  shows "PluginCacheResponse_Eval clk getMinTTL ev w ps msg =
     (let ttl = getMinTTL (heap w) msg (cacheMinTTL ps) (cacheMaxTTL ps) (cacheNegMinTTL ps)
                  (cacheNegMaxTTL ps)
      in Inr (None, w\<lparr>cachedResponses := cachedResponses w,
                       heap := updateTTL (clk 1) (heap w) msg (clk 0 + ttl)\<rparr>))"
  using assms
  by (auto simp add: PluginCacheResponse_Eval_def cacheable_def Once_Do_def Let_def)

lemma ex_response_key: "computeCacheKey ex_ps ex_response = Inr ex_key"
  using computeCacheKey_Cons [of ex_response ex_question "[]" ex_ps]
  by (simp add: ex_response_def derive_spec_def spec_header_def le_bytes16_1 Normalize_ex_name
      ex_question_def ex_ps_def ex_key_def)

lemma ex_response_cacheable: "cacheable ex_response"
  by (simp add: cacheable_def ex_response_def Msg_zero_def RcodeSuccess_def)

lemma ex_written_eq:
  "PluginCacheResponse_Eval (at (40 * Second)) ex_policy ex_ev ex_world ex_ps ex_response
     = Inr (None, ex_written)"
proof -
  have "\<not> cacheOnce (cachedResponses ex_world)" and "0 < cacheSize ex_ps"
    by (simp_all add: ex_world_def ex_ps_def)
  from writer_first_call_constructs [OF ex_response_cacheable ex_response_key this]
  show ?thesis
    by (simp add: ex_world_def ex_ps_def ex_policy_def ex_ev_def Insert_def at_def ex_written_def
        ex_store_def ex_entry_def updateTTL_def msg_addrs_def ex_response_def Msg_zero_def
        Second_def)
qed

lemma reader_eval_miss:
  assumes "computeCacheKey ps msg = Inr k"
    and "cache (cachedResponses w) = None \<or> (\<exists>c. cache (cachedResponses w) = Some c \<and> Get c k = None)"
  shows "PluginCache_Eval clk w ps msg = Inr (None, w, ps)"
  using assms by (auto simp add: PluginCache_Eval_def)

lemma synth_fields:
  "(fst (Msg_Copy h stored))\<lparr>MsgId := i, Response := True, Compress := True, Question := q\<rparr> = synth
   \<Longrightarrow> synth = stored\<lparr>MsgId := i, Response := True, Compress := True, Question := q,
                         Answer := Answer synth, Ns := Ns synth, Extra := Extra synth\<rparr>
       \<and> Answer synth = Answer (fst (Msg_Copy h stored))
       \<and> Ns synth = Ns (fst (Msg_Copy h stored))
       \<and> Extra synth = Extra (fst (Msg_Copy h stored))"
  by (auto simp add: Msg_Copy_def Let_def)

lemma reader_hit_copy:
  assumes synth_def: "synth = (fst (Msg_Copy h stored))\<lparr>MsgId := MsgId msg, Response := True,
                       Compress := True, Question := Question msg\<rparr>"
    and h'_def: "h' = updateTTL now (snd (Msg_Copy h stored)) synth e"
  shows "synth = stored\<lparr>MsgId := MsgId msg, Response := True, Compress := True,
                        Question := Question msg,
                        Answer := Answer synth, Ns := Ns synth, Extra := Extra synth\<rparr>"
    and "msg_records h' synth = retimed (e - now) (msg_records h stored)"
    and "set (msg_addrs synth) = {length h ..< length h'}"
    and "take (length h) h' = h"
proof -
  have f: "synth = stored\<lparr>MsgId := MsgId msg, Response := True, Compress := True,
                        Question := Question msg,
                        Answer := Answer synth, Ns := Ns synth, Extra := Extra synth\<rparr>"
    and a: "Answer synth = Answer (fst (Msg_Copy h stored))"
    and n: "Ns synth = Ns (fst (Msg_Copy h stored))"
    and x: "Extra synth = Extra (fst (Msg_Copy h stored))"
    using synth_fields [where h = h and stored = stored and i = "MsgId msg"
          and q = "Question msg" and synth = synth]
    by (simp_all add: synth_def)
  show "synth = stored\<lparr>MsgId := MsgId msg, Response := True, Compress := True,
                        Question := Question msg,
                        Answer := Answer synth, Ns := Ns synth, Extra := Extra synth\<rparr>"
    by (rule f)
  show "msg_records h' synth = retimed (e - now) (msg_records h stored)"
    unfolding h'_def by (rule copy_records_retimed [OF a n x])
  have addrs: "msg_addrs synth = [length h ..< length (snd (Msg_Copy h stored))]"
    by (rule copy_addrs [OF a n x])
  then show "set (msg_addrs synth) = {length h ..< length h'}"
    by (simp add: h'_def length_updateTTL)
  show "take (length h) h' = h"
    unfolding h'_def copy_heap_retimed [OF addrs] by simp
qed

lemma reader_fresh:
  assumes k: "computeCacheKey ps msg = Inr k" and c: "cache (cachedResponses w) = Some c"
    and g: "Get c k = Some cached" and f: "\<not> cr_expiration cached < clk 0"
  shows "\<exists>synth h'.
     PluginCache_Eval clk w ps msg =
       Inr (None, w\<lparr>heap := h'\<rparr>,
            ps\<lparr>synthResponse := Some synth, action := PluginsActionSynth, cacheHit := True\<rparr>)
     \<and> synth = (cr_msg cached)\<lparr>MsgId := MsgId msg, Response := True, Compress := True,
                   Question := Question msg,
                   Answer := Answer synth, Ns := Ns synth, Extra := Extra synth\<rparr>
     \<and> msg_records h' synth =
         retimed (cr_expiration cached - clk 1) (msg_records (heap w) (cr_msg cached))
     \<and> set (msg_addrs synth) = {length (heap w) ..< length h'}
     \<and> take (length (heap w)) h' = heap w"
proof -
  define synth where "synth = (fst (Msg_Copy (heap w) (cr_msg cached)))\<lparr>MsgId := MsgId msg,
     Response := True, Compress := True, Question := Question msg\<rparr>"
  define h' where "h' = updateTTL (clk 1) (snd (Msg_Copy (heap w) (cr_msg cached))) synth
     (cr_expiration cached)"
  have "PluginCache_Eval clk w ps msg =
       Inr (None, w\<lparr>heap := h'\<rparr>,
            ps\<lparr>synthResponse := Some synth, action := PluginsActionSynth, cacheHit := True\<rparr>)"
    by (simp add: reader_eval_hit [OF k c g] f Let_def synth_def h'_def)
  with reader_hit_copy [OF synth_def h'_def] show ?thesis
    by blast
qed

lemma reader_stale:
  assumes k: "computeCacheKey ps msg = Inr k" and c: "cache (cachedResponses w) = Some c"
    and g: "Get c k = Some cached" and f: "cr_expiration cached < clk 0"
  shows "\<exists>synth h'.
     PluginCache_Eval clk w ps msg =
       Inr (None, w\<lparr>heap := h'\<rparr>, ps\<lparr>sessionData := (sessionData ps)(''stale'' \<mapsto> synth)\<rparr>)
     \<and> synth = (cr_msg cached)\<lparr>MsgId := MsgId msg, Response := True, Compress := True,
                   Question := Question msg,
                   Answer := Answer synth, Ns := Ns synth, Extra := Extra synth\<rparr>
     \<and> msg_records h' synth =
         retimed (clk 1 + StaleResponseTTL - clk 2) (msg_records (heap w) (cr_msg cached))
     \<and> set (msg_addrs synth) = {length (heap w) ..< length h'}
     \<and> take (length (heap w)) h' = heap w"
proof -
  define synth where "synth = (fst (Msg_Copy (heap w) (cr_msg cached)))\<lparr>MsgId := MsgId msg,
     Response := True, Compress := True, Question := Question msg\<rparr>"
  define h' where "h' = updateTTL (clk 2) (snd (Msg_Copy (heap w) (cr_msg cached))) synth
     (clk 1 + StaleResponseTTL)"
  have "PluginCache_Eval clk w ps msg =
       Inr (None, w\<lparr>heap := h'\<rparr>, ps\<lparr>sessionData := (sessionData ps)(''stale'' \<mapsto> synth)\<rparr>)"
    by (simp add: reader_eval_hit [OF k c g] f Let_def synth_def h'_def)
  with reader_hit_copy [OF synth_def h'_def] show ?thesis
    by blast
qed

lemma ex_written_store: "cache (cachedResponses ex_written) = Some ex_store"
  by (simp add: ex_written_def)

lemma ex_store_entry: "Get ex_store ex_key = Some ex_entry"
  by (simp add: Get_def ex_store_def)

lemma ex_synth_eq:
  "(fst (Msg_Copy (heap ex_written) (cr_msg ex_entry)))
     \<lparr>MsgId := MsgId ex_query, Response := True, Compress := True, Question := Question ex_query\<rparr>
   = ex_synth"
  by (simp add: Msg_Copy_def ex_written_def ex_entry_def ex_response_def ex_query_def ex_synth_def
      Msg_zero_def)

lemma ex_copy_heap:
  "snd (Msg_Copy (heap ex_written) (cr_msg ex_entry)) =
     [ex_rr\<lparr>Ttl := 60 * Second\<rparr>, ex_rr\<lparr>Ttl := 60 * Second\<rparr>]"
  by (simp add: Msg_Copy_def ex_written_def ex_entry_def ex_response_def Msg_zero_def)

lemma ex_retime:
  "updateTTL now [ex_rr\<lparr>Ttl := 60 * Second\<rparr>, ex_rr\<lparr>Ttl := 60 * Second\<rparr>] ex_synth e =
     [ex_rr\<lparr>Ttl := 60 * Second\<rparr>, ex_rr\<lparr>Ttl := e - now\<rparr>]"
  by (simp add: updateTTL_def msg_addrs_def ex_synth_def ex_response_def Msg_zero_def)

lemma ex_read_fresh:
  "t \<le> 100 * Second \<Longrightarrow>
   PluginCache_Eval (at t) ex_written ex_ps ex_query =
     Inr (None, ex_written\<lparr>heap := [ex_rr\<lparr>Ttl := 60 * Second\<rparr>, ex_rr\<lparr>Ttl := 100 * Second - t\<rparr>]\<rparr>,
          ex_ps\<lparr>synthResponse := Some ex_synth, action := PluginsActionSynth, cacheHit := True\<rparr>)"
  by (simp add: reader_eval_hit [OF ex_key_eq ex_written_store ex_store_entry] ex_synth_eq
      ex_copy_heap ex_retime at_def)
     (simp add: ex_entry_def ex_retime)

lemma ex_read_stale:
  "100 * Second < t \<Longrightarrow>
   PluginCache_Eval (at t) ex_written ex_ps ex_query =
     Inr (None, ex_written\<lparr>heap := [ex_rr\<lparr>Ttl := 60 * Second\<rparr>, ex_rr\<lparr>Ttl := StaleResponseTTL\<rparr>]\<rparr>,
          ex_ps\<lparr>sessionData := (sessionData ex_ps)(''stale'' \<mapsto> ex_synth)\<rparr>)"
  by (simp add: reader_eval_hit [OF ex_key_eq ex_written_store ex_store_entry] ex_synth_eq
      ex_copy_heap ex_retime at_def)
     (simp add: ex_entry_def ex_retime)

lemma computeCacheKey_dnssec:
  "dnssec ps1 = dnssec ps2 \<Longrightarrow> computeCacheKey ps1 msg = computeCacheKey ps2 msg"
  by (cases "Question msg") (simp_all add: computeCacheKey_Nil computeCacheKey_Cons)

lemma writer_skip:
  "\<not> cacheable msg \<Longrightarrow> PluginCacheResponse_Eval clk getMinTTL ev w ps msg = Inr (None, w)"
  by (auto simp add: PluginCacheResponse_Eval_def cacheable_def)

lemma writer_disabled_invariant:
  assumes "cacheOnce (cachedResponses w)" and "cache (cachedResponses w) = None"
    and "PluginCacheResponse_Eval clk getMinTTL ev w ps msg = Inr (e, w')"
  shows "e = None \<and> cache (cachedResponses w') = None \<and> cacheOnce (cachedResponses w')"
proof (cases "cacheable msg")
  case False
  with assms show ?thesis by (simp add: writer_skip)
next
  case True
  show ?thesis
  proof (cases "computeCacheKey ps msg")
    case (Inl p)
    with True assms(3) show ?thesis
      by (auto simp add: PluginCacheResponse_Eval_def cacheable_def)
  next
    case (Inr k)
    from writer_store_absent [OF True Inr assms(1,2)] assms show ?thesis
      by (auto simp add: Let_def)
  qed
qed

lemma ex_failed_eq:
  "PluginCacheResponse_Eval clk getMinTTL ev ex_world (ex_ps\<lparr>cacheSize := 0\<rparr>) ex_response =
     Inr (Some (CacheInitError CapacityNotPositive), ex_failed)"
proof -
  have k: "computeCacheKey (ex_ps\<lparr>cacheSize := 0\<rparr>) ex_response = Inr ex_key"
    using computeCacheKey_dnssec [of "ex_ps\<lparr>cacheSize := 0\<rparr>" ex_ps ex_response] ex_response_key
    by simp
  have "\<not> cacheOnce (cachedResponses ex_world)" and "cacheSize (ex_ps\<lparr>cacheSize := 0\<rparr>) \<le> 0"
    by (simp_all add: ex_world_def)
  from writer_first_call_fails [OF ex_response_cacheable k this]
  show ?thesis
    by (simp add: ex_world_def ex_failed_def)
qed

lemma records_updateTTL_self:
  assumes "msg_wf h m"
  shows "msg_records (updateTTL now h m e) m = retimed (e - now) (msg_records h m)"
proof -
  have "\<And>a. a \<in> set (msg_addrs m) \<Longrightarrow> updateTTL now h m e ! a = (h ! a)\<lparr>Ttl := e - now\<rparr>"
    using assms by (simp add: msg_wf_def list_all_iff nth_updateTTL)
  then show ?thesis
    by (simp add: msg_records_def retimed_def msg_addrs_def)
qed

lemma Get_Insert: "Get (Insert ev c k v) k = Some v"
  by (simp add: Get_def Insert_def)

lemma msg_records_prefix:
  assumes "msg_wf h m" and "take (length h) h' = h"
  shows "msg_records h' m = msg_records h m"
proof -
  have "\<And>a. a < length h \<Longrightarrow> h' ! a = h ! a"
    using assms(2) by (metis nth_take)
  then have "\<And>a. a \<in> set (msg_addrs m) \<Longrightarrow> h' ! a = h ! a"
    using assms(1) by (simp add: msg_wf_def list_all_iff)
  then show ?thesis
    by (simp add: msg_records_def msg_addrs_def)
qed

lemma take_length_le:
  assumes "take (length h) h1 = h"
  shows "length h \<le> length h1"
proof -
  have "length (take (length h) h1) = length h"
    using assms by simp
  then show ?thesis
    by (simp add: min_def split: if_splits)
qed

lemma take_take_prefix:
  assumes "take (length h) h1 = h" and "take (length h1) h2 = h1"
  shows "take (length h) h2 = h"
proof -
  have "length h \<le> length h1"
    using assms(1) by (rule take_length_le)
  then have "take (length h) (take (length h1) h2) = take (length h) h2"
    by (simp add: min_def)
  with assms show ?thesis by simp
qed

lemma ex_Key_eq: "computeCacheKey ex_ps ex_Query = Inr ex_key"
proof -
  have "Question ex_Query = ex_Question # []"
    by (simp add: ex_Query_def)
  from computeCacheKey_Cons [OF this, of ex_ps] show ?thesis
    by (simp add: derive_spec_def spec_header_def le_bytes16_1 Normalize_ex_Name
        ex_Question_def ex_ps_def ex_key_def)
qed

lemma ex_read_any:
  assumes "t \<le> 100 * Second"
  shows "PluginCache_Eval (at t) (ex_written\<lparr>heap := [r]\<rparr>) ex_ps ex_query =
     Inr (None, ex_written\<lparr>heap := [r, r\<lparr>Ttl := 100 * Second - t\<rparr>]\<rparr>,
          ex_ps\<lparr>synthResponse := Some ex_synth, action := PluginsActionSynth, cacheHit := True\<rparr>)"
proof -
  have c: "cache (cachedResponses (ex_written\<lparr>heap := [r]\<rparr>)) = Some ex_store"
    by (simp add: ex_written_def)
  have s: "(fst (Msg_Copy [r] ex_response))
     \<lparr>MsgId := MsgId ex_query, Response := True, Compress := True, Question := Question ex_query\<rparr>
     = ex_synth"
    by (simp add: Msg_Copy_def ex_response_def ex_query_def ex_synth_def Msg_zero_def)
  have h: "snd (Msg_Copy [r] ex_response) = [r, r]"
    by (simp add: Msg_Copy_def ex_response_def Msg_zero_def)
  have u: "updateTTL t [r, r] ex_synth (100 * Second) = [r, r\<lparr>Ttl := 100 * Second - t\<rparr>]"
    by (simp add: updateTTL_def msg_addrs_def ex_synth_def ex_response_def Msg_zero_def)
  have e: "cr_expiration ex_entry = 100 * Second" "cr_msg ex_entry = ex_response"
    by (simp_all add: ex_entry_def)
  show ?thesis
    using assms
    by (simp add: reader_eval_hit [OF ex_key_eq c ex_store_entry] e s h u at_def)
qed

lemma ex_failed_write:
  "PluginCacheResponse_Eval (at (41 * Second)) ex_policy ex_ev ex_failed ex_ps ex_response
     = Inr (None, ex_failed\<lparr>heap := [ex_rr\<lparr>Ttl := 60 * Second\<rparr>]\<rparr>)"
proof -
  have "cacheOnce (cachedResponses ex_failed)" and "cache (cachedResponses ex_failed) = None"
    by (simp_all add: ex_failed_def)
  from writer_store_absent [OF ex_response_cacheable ex_response_key this,
         of "at (41 * Second)" ex_policy ex_ev]
  show ?thesis
    by (simp add: ex_failed_def ex_policy_def ex_ps_def at_def updateTTL_def msg_addrs_def
        ex_response_def Msg_zero_def Second_def)
qed

section \<open>The claims\<close>

text \<open>
  C1. For every query message with at least one question, the derived key is SHA-512/256 of
  the five-byte header (question type and question class, each two bytes little-endian, and
  a flag byte that is 1 exactly when DNSSEC was requested) followed by the normalised bytes
  of the question name; the key has 32 bytes.
\<close>

theorem cache_key_is_digest_of_header_and_name:
  assumes "Question msg = q # qs"
  shows "computeCacheKey ps msg =
           Inr (sha512_256 (spec_header (Qtype q) (Qclass q) (dnssec ps) @
                            NormalizeRawQName (Name q)))
         \<and> length (spec_header (Qtype q) (Qclass q) (dnssec ps)) = 5
         \<and> length (sha512_256 (spec_header (Qtype q) (Qclass q) (dnssec ps) @
                               NormalizeRawQName (Name q))) = 32"
  using computeCacheKey_Cons [OF assms, of ps]
  by (simp add: derive_spec_def length_spec_header length_sha512_256)

theorem cache_key_is_digest_of_header_and_name_witness:
  "Question ex_query = ex_question # []
   \<and> computeCacheKey ex_ps ex_query = Inr (sha512_256 ([1, 0, 1, 0, 0] @ ex_name))
   \<and> length (sha512_256 ([1, 0, 1, 0, 0] @ ex_name)) = 32"
proof -
  have q: "Question ex_query = ex_question # []"
    by (simp add: ex_query_def)
  have h: "spec_header (Qtype ex_question) (Qclass ex_question) (dnssec ex_ps) = [1, 0, 1, 0, 0]"
    by (simp add: spec_header_def le_bytes16_1 ex_question_def ex_ps_def)
  have n: "NormalizeRawQName (Name ex_question) = ex_name"
    by (simp add: Normalize_ex_name ex_question_def)
  show ?thesis
    using cache_key_is_digest_of_header_and_name [OF q, of ex_ps] q
    by (simp only: h n simp_thms)
qed

text \<open>
  C9. Two queries whose question names are equal up to ASCII case and whose question type,
  question class and DNSSEC flag are equal have the same key, whatever else the two
  messages and the two plugin states contain.
\<close>

theorem cache_key_ignores_case_and_other_fields:
  assumes "Question msg1 = q1 # qs1" and "Question msg2 = q2 # qs2"
    and "names_equal_ignoring_case (Name q1) (Name q2)"
    and "Qtype q1 = Qtype q2" and "Qclass q1 = Qclass q2"
    and "dnssec ps1 = dnssec ps2"
  shows "computeCacheKey ps1 msg1 = computeCacheKey ps2 msg2"
  using assms
  by (simp add: computeCacheKey_Cons derive_spec_def NormalizeRawQName_eq)

theorem cache_key_ignores_case_and_other_fields_witness:
  "names_equal_ignoring_case (Name ex_Question) (Name ex_question)
   \<and> ex_Query \<noteq> ex_query
   \<and> computeCacheKey (ex_ps\<lparr>cacheSize := 0\<rparr>) ex_Query = computeCacheKey ex_ps ex_query"
proof -
  have n: "names_equal_ignoring_case (Name ex_Question) (Name ex_question)"
    by (simp add: ex_names_equal ex_Question_def ex_question_def)
  have d: "ex_Query \<noteq> ex_query"
    by (simp add: ex_Query_def ex_query_def Msg_zero_def)
  have "computeCacheKey (ex_ps\<lparr>cacheSize := 0\<rparr>) ex_Query = computeCacheKey ex_ps ex_query"
    by (rule cache_key_ignores_case_and_other_fields
              [of ex_Query ex_Question "[]" ex_query ex_question "[]"])
       (simp_all add: ex_names_equal ex_Query_def ex_query_def ex_Question_def
          ex_question_def ex_ps_def)
  with n d show ?thesis by simp
qed

text \<open>
  C5. For a response whose status is none of success, name error and not authoritative, or
  whose truncation flag is set, the writer returns no error and leaves the whole state as
  it was: the store, the once flag (no construction is attempted) and the records.
\<close>

theorem writer_skips_uncacheable_responses:
  assumes "(Rcode msg \<noteq> RcodeSuccess \<and> Rcode msg \<noteq> RcodeNameError \<and> Rcode msg \<noteq> RcodeNotAuth)
           \<or> Truncated msg"
  shows "PluginCacheResponse_Eval clk getMinTTL ev w ps msg = Inr (None, w)"
  using assms by (auto simp add: PluginCacheResponse_Eval_def)

theorem writer_skips_uncacheable_responses_witness:
  "Rcode (ex_response\<lparr>Rcode := 2\<rparr>) \<noteq> RcodeSuccess
   \<and> Rcode (ex_response\<lparr>Rcode := 2\<rparr>) \<noteq> RcodeNameError
   \<and> Rcode (ex_response\<lparr>Rcode := 2\<rparr>) \<noteq> RcodeNotAuth
   \<and> PluginCacheResponse_Eval (at 0) ex_policy ex_ev ex_world ex_ps (ex_response\<lparr>Rcode := 2\<rparr>)
       = Inr (None, ex_world)
   \<and> PluginCacheResponse_Eval (at 0) ex_policy ex_ev ex_world ex_ps (ex_response\<lparr>Truncated := True\<rparr>)
       = Inr (None, ex_world)"
  using writer_skips_uncacheable_responses
          [of "ex_response\<lparr>Rcode := 2\<rparr>" "at 0" ex_policy ex_ev ex_world ex_ps]
        writer_skips_uncacheable_responses
          [of "ex_response\<lparr>Truncated := True\<rparr>" "at 0" ex_policy ex_ev ex_world ex_ps]
  by (simp add: RcodeSuccess_def RcodeNameError_def RcodeNotAuth_def)

text \<open>
  C10. Key derivation reads the first question without a check. With an empty question
  section it panics, and so does the reader, and so does the writer on every response it
  would store (cacheable status, not truncated). With a question present none of the three
  panics.
\<close>

theorem empty_question_section_panics:
  "(Question msg = [] \<longrightarrow> computeCacheKey ps msg = Inl IndexOutOfRange)
   \<and> (Question msg = [] \<longrightarrow> PluginCache_Eval clk w ps msg = Inl IndexOutOfRange)
   \<and> (Question msg = [] \<and> cacheable msg \<longrightarrow>
        PluginCacheResponse_Eval clk getMinTTL ev w ps msg = Inl IndexOutOfRange)
   \<and> (Question msg \<noteq> [] \<longrightarrow>
        (\<exists>k. computeCacheKey ps msg = Inr k)
        \<and> (\<exists>r. PluginCache_Eval clk w ps msg = Inr r)
        \<and> (\<exists>r. PluginCacheResponse_Eval clk getMinTTL ev w ps msg = Inr r))"
proof -
  have "Question msg = [] \<Longrightarrow> PluginCache_Eval clk w ps msg = Inl IndexOutOfRange"
    by (simp add: PluginCache_Eval_def computeCacheKey_Nil)
  moreover have "Question msg = [] \<Longrightarrow> cacheable msg \<Longrightarrow>
      PluginCacheResponse_Eval clk getMinTTL ev w ps msg = Inl IndexOutOfRange"
    by (auto simp add: PluginCacheResponse_Eval_def computeCacheKey_Nil cacheable_def)
  moreover have "Question msg \<noteq> [] \<Longrightarrow> \<exists>k. computeCacheKey ps msg = Inr k"
    by (cases "Question msg") (simp_all add: computeCacheKey_Cons)
  ultimately show ?thesis
    using reader_no_panic writer_no_panic computeCacheKey_Nil by blast
qed

theorem empty_question_section_panics_witness:
  "Question Msg_zero = [] \<and> cacheable Msg_zero
   \<and> computeCacheKey ex_ps Msg_zero = Inl IndexOutOfRange
   \<and> PluginCache_Eval (at 0) ex_world ex_ps Msg_zero = Inl IndexOutOfRange
   \<and> PluginCacheResponse_Eval (at 0) ex_policy ex_ev ex_world ex_ps Msg_zero = Inl IndexOutOfRange
   \<and> Question ex_query \<noteq> []
   \<and> PluginCache_Eval (at 0) ex_world ex_ps ex_query \<noteq> Inl IndexOutOfRange"
proof -
  have z: "Question Msg_zero = []" "cacheable Msg_zero"
    by (simp_all add: Msg_zero_def cacheable_def RcodeSuccess_def)
  have q: "Question ex_query \<noteq> []"
    by (simp add: ex_query_def)
  show ?thesis
    using empty_question_section_panics [of Msg_zero ex_ps "at 0" ex_world ex_policy ex_ev]
          empty_question_section_panics [of ex_query ex_ps "at 0" ex_world ex_policy ex_ev] z q
    by auto
qed

text \<open>
  C4. On a hit at a time strictly before the expiration of the entry, the reader returns no
  error, marks the query as answered by a synthesised message and as a cache hit; that
  message is the stored one with the identifier and the question section of the query, the
  response flag set and compression enabled; its records are newly allocated copies of the
  stored records whose time to live is the time remaining until the expiration; the store
  and all records that existed before the call are unchanged.
\<close>

theorem fresh_hit_answers_from_private_copy:
  assumes "computeCacheKey ps msg = Inr k" and "cache (cachedResponses w) = Some c"
    and "Get c k = Some cached" and "now < cr_expiration cached"
  shows "\<exists>synth h'.
     PluginCache_Eval (at now) w ps msg =
       Inr (None, w\<lparr>heap := h'\<rparr>,
            ps\<lparr>synthResponse := Some synth, action := PluginsActionSynth, cacheHit := True\<rparr>)
     \<and> MsgId synth = MsgId msg \<and> Response synth \<and> Compress synth
     \<and> Question synth = Question msg
     \<and> synth = (cr_msg cached)\<lparr>MsgId := MsgId msg, Response := True, Compress := True,
                   Question := Question msg,
                   Answer := Answer synth, Ns := Ns synth, Extra := Extra synth\<rparr>
     \<and> msg_records h' synth =
         retimed (cr_expiration cached - now) (msg_records (heap w) (cr_msg cached))
     \<and> set (msg_addrs synth) = {length (heap w) ..< length h'}
     \<and> take (length (heap w)) h' = heap w"
proof -
  have "\<not> cr_expiration cached < at now 0"
    using assms(4) by (simp add: at_def)
  from reader_fresh [where clk = "at now", OF assms(1-3) this]
  obtain synth h' where r:
    "PluginCache_Eval (at now) w ps msg =
       Inr (None, w\<lparr>heap := h'\<rparr>,
            ps\<lparr>synthResponse := Some synth, action := PluginsActionSynth, cacheHit := True\<rparr>)"
    "synth = (cr_msg cached)\<lparr>MsgId := MsgId msg, Response := True, Compress := True,
                   Question := Question msg,
                   Answer := Answer synth, Ns := Ns synth, Extra := Extra synth\<rparr>"
    "msg_records h' synth =
         retimed (cr_expiration cached - at now 1) (msg_records (heap w) (cr_msg cached))"
    "set (msg_addrs synth) = {length (heap w) ..< length h'}"
    "take (length (heap w)) h' = heap w"
    by blast
  have "MsgId synth = MsgId msg" "Response synth" "Compress synth" "Question synth = Question msg"
    by (subst r(2), simp)+
  with r show ?thesis
    by (simp only: at_def) blast
qed

theorem fresh_hit_answers_from_private_copy_witness:
  "computeCacheKey ex_ps ex_query = Inr ex_key
   \<and> cache (cachedResponses ex_written) = Some ex_store
   \<and> Get ex_store ex_key = Some ex_entry
   \<and> 70 * Second < cr_expiration ex_entry
   \<and> (\<exists>synth h'.
        PluginCache_Eval (at (70 * Second)) ex_written ex_ps ex_query =
          Inr (None, ex_written\<lparr>heap := h'\<rparr>,
               ex_ps\<lparr>synthResponse := Some synth, action := PluginsActionSynth, cacheHit := True\<rparr>)
        \<and> MsgId synth = MsgId ex_query \<and> Response synth \<and> Compress synth
        \<and> Question synth = Question ex_query
        \<and> msg_records h' synth =
            retimed (cr_expiration ex_entry - 70 * Second)
              (msg_records (heap ex_written) (cr_msg ex_entry))
        \<and> set (msg_addrs synth) = {length (heap ex_written) ..< length h'}
        \<and> take (length (heap ex_written)) h' = heap ex_written)"
proof -
  have t: "70 * Second < cr_expiration ex_entry"
    by (simp add: ex_entry_def Second_def)
  from fresh_hit_answers_from_private_copy [OF ex_key_eq ex_written_store ex_store_entry t]
  show ?thesis
    using ex_key_eq ex_written_store ex_store_entry t by blast
qed

text \<open>
  C3, as amended. On a hit at a time strictly after the expiration of the entry, the reader
  returns no error and only fills the slot \<^verbatim>\<open>stale\<close> of the session data: the query is
  neither marked as answered nor as a cache hit. The message in the slot is the stored one
  with the identifier and the question section of the query, the response flag set and
  compression enabled; its records are newly allocated copies whose time to live is the
  constant \<open>StaleResponseTTL\<close>; the store and all records that existed before the call are
  unchanged.
\<close>

theorem stale_hit_after_expiration:
  assumes "computeCacheKey ps msg = Inr k" and "cache (cachedResponses w) = Some c"
    and "Get c k = Some cached" and "cr_expiration cached < now"
  shows "\<exists>synth h'.
     PluginCache_Eval (at now) w ps msg =
       Inr (None, w\<lparr>heap := h'\<rparr>, ps\<lparr>sessionData := (sessionData ps)(''stale'' \<mapsto> synth)\<rparr>)
     \<and> synth = (cr_msg cached)\<lparr>MsgId := MsgId msg, Response := True, Compress := True,
                   Question := Question msg,
                   Answer := Answer synth, Ns := Ns synth, Extra := Extra synth\<rparr>
     \<and> msg_records h' synth = retimed StaleResponseTTL (msg_records (heap w) (cr_msg cached))
     \<and> set (msg_addrs synth) = {length (heap w) ..< length h'}
     \<and> take (length (heap w)) h' = heap w"
proof -
  have "cr_expiration cached < at now 0"
    using assms(4) by (simp add: at_def)
  from reader_stale [where clk = "at now", OF assms(1-3) this]
  show ?thesis
    by (simp add: at_def)
qed

theorem stale_hit_after_expiration_witness:
  "computeCacheKey ex_ps ex_query = Inr ex_key
   \<and> cache (cachedResponses ex_written) = Some ex_store
   \<and> Get ex_store ex_key = Some ex_entry
   \<and> cr_expiration ex_entry < 105 * Second
   \<and> (\<exists>synth h'.
        PluginCache_Eval (at (105 * Second)) ex_written ex_ps ex_query =
          Inr (None, ex_written\<lparr>heap := h'\<rparr>,
               ex_ps\<lparr>sessionData := (sessionData ex_ps)(''stale'' \<mapsto> synth)\<rparr>)
        \<and> msg_records h' synth =
            retimed StaleResponseTTL (msg_records (heap ex_written) (cr_msg ex_entry))
        \<and> set (msg_addrs synth) = {length (heap ex_written) ..< length h'}
        \<and> take (length (heap ex_written)) h' = heap ex_written)"
proof -
  have t: "cr_expiration ex_entry < 105 * Second"
    by (simp add: ex_entry_def Second_def)
  from stale_hit_after_expiration [OF ex_key_eq ex_written_store ex_store_entry t]
  show ?thesis
    using ex_key_eq ex_written_store ex_store_entry t by blast
qed

text \<open>
  As stated, with \<^emph>\<open>at or after\<close>, the claim fails at the instant of the expiration: the
  code tests \<^verbatim>\<open>time.Now().After(expiration)\<close>, so the sample entry, which expires at
  second 100, is served at second 100 as a fresh hit with a time to live of zero, and the
  slot \<^verbatim>\<open>stale\<close> stays empty.
\<close>

theorem stale_hit_at_expiration_counterexample:
  "computeCacheKey ex_ps ex_query = Inr ex_key
   \<and> cache (cachedResponses ex_written) = Some ex_store
   \<and> Get ex_store ex_key = Some ex_entry
   \<and> cr_expiration ex_entry \<le> 100 * Second
   \<and> PluginCache_Eval (at (100 * Second)) ex_written ex_ps ex_query =
       Inr (None, ex_written\<lparr>heap := [ex_rr\<lparr>Ttl := 60 * Second\<rparr>, ex_rr\<lparr>Ttl := 0\<rparr>]\<rparr>,
            ex_ps\<lparr>synthResponse := Some ex_synth, action := PluginsActionSynth, cacheHit := True\<rparr>)
   \<and> sessionData (ex_ps\<lparr>synthResponse := Some ex_synth, action := PluginsActionSynth,
                        cacheHit := True\<rparr>) ''stale'' = None"
  using ex_read_fresh [of "100 * Second"] ex_key_eq ex_written_store ex_store_entry
  by (simp add: ex_entry_def ex_ps_def)

text \<open>
  C8, as amended. For a query with at least one question the reader never panics and never
  returns an error; when the store has not been constructed, or holds nothing under the key
  of the query, the call changes neither the world nor the plugin state.
\<close>

theorem reader_never_fails_and_miss_changes_nothing:
  assumes "Question msg \<noteq> []"
  shows "(\<exists>w' ps'. PluginCache_Eval clk w ps msg = Inr (None, w', ps'))
     \<and> (cache (cachedResponses w) = None \<longrightarrow> PluginCache_Eval clk w ps msg = Inr (None, w, ps))
     \<and> (\<forall>c k. cache (cachedResponses w) = Some c \<and> computeCacheKey ps msg = Inr k
                \<and> Get c k = None \<longrightarrow>
              PluginCache_Eval clk w ps msg = Inr (None, w, ps))"
proof -
  obtain q qs where q: "Question msg = q # qs"
    using assms by (cases "Question msg") simp_all
  have 1: "\<exists>w' ps'. PluginCache_Eval clk w ps msg = Inr (None, w', ps')"
    by (simp add: PluginCache_Eval_def computeCacheKey_Cons [OF q] Let_def case_prod_beta
        split: option.splits)
  have 2: "cache (cachedResponses w) = None \<Longrightarrow> PluginCache_Eval clk w ps msg = Inr (None, w, ps)"
    by (simp add: PluginCache_Eval_def computeCacheKey_Cons [OF q])
  have 3: "\<And>c k. cache (cachedResponses w) = Some c \<Longrightarrow> computeCacheKey ps msg = Inr k \<Longrightarrow>
      Get c k = None \<Longrightarrow> PluginCache_Eval clk w ps msg = Inr (None, w, ps)"
    by (simp add: PluginCache_Eval_def)
  from 1 2 3 show ?thesis by blast
qed

theorem reader_never_fails_and_miss_changes_nothing_witness:
  "Question ex_query \<noteq> []
   \<and> cache (cachedResponses ex_world) = None
   \<and> PluginCache_Eval (at 0) ex_world ex_ps ex_query = Inr (None, ex_world, ex_ps)
   \<and> cache (cachedResponses ex_empty) = Some \<lparr>capacity = 16, entries = []\<rparr>
   \<and> computeCacheKey ex_ps ex_query = Inr ex_key
   \<and> Get \<lparr>capacity = 16, entries = []\<rparr> ex_key = None
   \<and> PluginCache_Eval (at 0) ex_empty ex_ps ex_query = Inr (None, ex_empty, ex_ps)"
proof -
  have q: "Question ex_query \<noteq> []"
    by (simp add: ex_query_def)
  have n: "cache (cachedResponses ex_world) = None"
    by (simp add: ex_world_def)
  have e: "cache (cachedResponses ex_empty) = Some \<lparr>capacity = 16, entries = []\<rparr>"
    "Get \<lparr>capacity = 16, entries = []\<rparr> ex_key = None"
    by (simp_all add: ex_empty_def Get_def)
  from reader_never_fails_and_miss_changes_nothing [OF q, of "at 0" ex_world ex_ps]
       reader_never_fails_and_miss_changes_nothing [OF q, of "at 0" ex_empty ex_ps]
       q n e ex_key_eq
  show ?thesis by blast
qed

text \<open>
  As stated, for all inputs, the claim fails on a message without a question: the reader
  panics in \<^verbatim>\<open>computeCacheKey\<close> before it looks at the store.
\<close>

theorem reader_panics_without_question_counterexample:
  "Question Msg_zero = []
   \<and> PluginCache_Eval (at 0) ex_written ex_ps Msg_zero = Inl IndexOutOfRange"
  by (simp add: PluginCache_Eval_def computeCacheKey_def Msg_zero_def)

text \<open>
  C2, as amended. If the construction of the store fails on a writer call (first use of the
  once guard, capacity not positive), that call returns a construction error, inserts
  nothing and leaves the records alone; the once guard is then spent. In every state in
  which the guard is spent and no store exists, whatever the configured capacity, a writer
  call on a response with at least one question returns success, constructs no store and
  leaves the guard spent: construction is not attempted again and caching stays off. A
  writer call on any response that returns at all does so without an error and leaves the
  store absent and the guard spent.
\<close>

theorem failed_construction_is_not_retried:
  assumes "cacheable msg" and "Question msg \<noteq> []"
    and "\<not> cacheOnce (cachedResponses w)" and "cache (cachedResponses w) = None"
    and "cacheSize ps \<le> 0"
  shows "(\<exists>err w1.
            PluginCacheResponse_Eval clk getMinTTL ev w ps msg = Inr (Some (CacheInitError err), w1)
            \<and> heap w1 = heap w
            \<and> cache (cachedResponses w1) = None \<and> cacheOnce (cachedResponses w1))
     \<and> (\<forall>w1 clk' getMinTTL' ev' ps' msg'.
            cacheOnce (cachedResponses w1) \<and> cache (cachedResponses w1) = None
            \<and> Question msg' \<noteq> [] \<longrightarrow>
            (\<exists>w2. PluginCacheResponse_Eval clk' getMinTTL' ev' w1 ps' msg' = Inr (None, w2)
                  \<and> cache (cachedResponses w2) = None \<and> cacheOnce (cachedResponses w2)))
     \<and> (\<forall>w1 clk' getMinTTL' ev' ps' msg' e w2.
            cacheOnce (cachedResponses w1) \<and> cache (cachedResponses w1) = None
            \<and> PluginCacheResponse_Eval clk' getMinTTL' ev' w1 ps' msg' = Inr (e, w2) \<longrightarrow>
            e = None \<and> cache (cachedResponses w2) = None \<and> cacheOnce (cachedResponses w2))"
proof -
  obtain k where k: "computeCacheKey ps msg = Inr k"
    using assms(2) by (cases "Question msg") (simp_all add: computeCacheKey_Cons)
  from writer_first_call_fails [OF assms(1) k assms(3,5)] assms(4)
  have 1: "\<exists>err w1.
            PluginCacheResponse_Eval clk getMinTTL ev w ps msg = Inr (Some (CacheInitError err), w1)
            \<and> heap w1 = heap w
            \<and> cache (cachedResponses w1) = None \<and> cacheOnce (cachedResponses w1)"
    by simp
  have 2: "\<exists>w2. PluginCacheResponse_Eval clk' getMinTTL' ev' w1 ps' msg' = Inr (None, w2)
                  \<and> cache (cachedResponses w2) = None \<and> cacheOnce (cachedResponses w2)"
    if o: "cacheOnce (cachedResponses w1)" and n: "cache (cachedResponses w1) = None"
      and q: "Question msg' \<noteq> []"
    for w1 clk' getMinTTL' ev' ps' msg'
  proof -
    from writer_no_panic [OF q, of clk' getMinTTL' ev' w1 ps']
    obtain e w2 where r: "PluginCacheResponse_Eval clk' getMinTTL' ev' w1 ps' msg' = Inr (e, w2)"
      by (metis surj_pair)
    from writer_disabled_invariant [OF o n r] r show ?thesis
      by simp
  qed
  have 3: "e = None \<and> cache (cachedResponses w2) = None \<and> cacheOnce (cachedResponses w2)"
    if "cacheOnce (cachedResponses w1)" and "cache (cachedResponses w1) = None"
      and "PluginCacheResponse_Eval clk' getMinTTL' ev' w1 ps' msg' = Inr (e, w2)"
    for w1 clk' getMinTTL' ev' ps' msg' e w2
    using that by (rule writer_disabled_invariant)
  from 1 2 3 show ?thesis
    by blast
qed

theorem failed_construction_is_not_retried_witness:
  "cacheable ex_response \<and> Question ex_response \<noteq> []
   \<and> \<not> cacheOnce (cachedResponses ex_world) \<and> cache (cachedResponses ex_world) = None
   \<and> cacheSize (ex_ps\<lparr>cacheSize := 0\<rparr>) \<le> 0
   \<and> (\<exists>err w1.
         PluginCacheResponse_Eval (at 0) ex_policy ex_ev ex_world (ex_ps\<lparr>cacheSize := 0\<rparr>) ex_response
           = Inr (Some (CacheInitError err), w1)
         \<and> heap w1 = heap ex_world
         \<and> cache (cachedResponses w1) = None \<and> cacheOnce (cachedResponses w1))
   \<and> cacheOnce (cachedResponses ex_failed) \<and> cache (cachedResponses ex_failed) = None
   \<and> (\<exists>w2. PluginCacheResponse_Eval (at (41 * Second)) ex_policy ex_ev ex_failed ex_ps ex_response
               = Inr (None, w2)
            \<and> cache (cachedResponses w2) = None \<and> cacheOnce (cachedResponses w2))
   \<and> PluginCacheResponse_Eval (at (41 * Second)) ex_policy ex_ev ex_failed ex_ps ex_response
       = Inr (None, ex_failed\<lparr>heap := [ex_rr\<lparr>Ttl := 60 * Second\<rparr>]\<rparr>)
   \<and> cache (cachedResponses (ex_failed\<lparr>heap := [ex_rr\<lparr>Ttl := 60 * Second\<rparr>]\<rparr>)) = None
   \<and> cacheOnce (cachedResponses (ex_failed\<lparr>heap := [ex_rr\<lparr>Ttl := 60 * Second\<rparr>]\<rparr>))"
proof -
  have h: "Question ex_response \<noteq> []" "\<not> cacheOnce (cachedResponses ex_world)"
    "cache (cachedResponses ex_world) = None" "cacheSize (ex_ps\<lparr>cacheSize := 0\<rparr>) \<le> 0"
    by (simp_all add: ex_response_def ex_world_def)
  have f: "cacheOnce (cachedResponses ex_failed)" "cache (cachedResponses ex_failed) = None"
    by (simp_all add: ex_failed_def)
  from failed_construction_is_not_retried
         [OF ex_response_cacheable h, of "at 0" ex_policy ex_ev]
  show ?thesis
    using ex_response_cacheable h f ex_failed_write by blast
qed

text \<open>
  As stated, with a new attempt on every later call, the claim fails: after a first call
  with capacity 0 a second call with capacity 16, for which \<^verbatim>\<open>NewSharded\<close> would
  succeed, returns no error and leaves the store absent.
\<close>

theorem construction_retry_counterexample:
  "PluginCacheResponse_Eval (at (40 * Second)) ex_policy ex_ev ex_world (ex_ps\<lparr>cacheSize := 0\<rparr>)
       ex_response
     = Inr (Some (CacheInitError CapacityNotPositive), ex_failed)
   \<and> NewSharded (cacheSize ex_ps) = Inr \<lparr>capacity = 16, entries = []\<rparr>
   \<and> PluginCacheResponse_Eval (at (41 * Second)) ex_policy ex_ev ex_failed ex_ps ex_response
     = Inr (None, ex_failed\<lparr>heap := [ex_rr\<lparr>Ttl := 60 * Second\<rparr>]\<rparr>)
   \<and> cache (cachedResponses (ex_failed\<lparr>heap := [ex_rr\<lparr>Ttl := 60 * Second\<rparr>]\<rparr>)) = None"
  using ex_failed_eq [of "at (40 * Second)" ex_policy ex_ev] ex_failed_write
  by (simp add: NewSharded_def ex_ps_def ex_failed_def)

text \<open>
  C6, as amended. For a cacheable, non-truncated response with at least one question, in a
  state where the store exists or is constructed by this call (once guard unused and a
  positive capacity), the writer returns no error; afterwards the store holds, under the
  derived key, the entry with expiration \<open>now + ttl\<close> and the response message, where
  \<open>ttl\<close> is the result of the freshness policy on the configured bounds; and the records
  of the response have their time to live rewritten to the time remaining until that
  expiration, which is \<open>ttl\<close>.
\<close>

theorem writer_stores_entry_and_retimes_response:
  assumes "cacheable msg" and "computeCacheKey ps msg = Inr k" and "msg_wf (heap w) msg"
    and "(cacheOnce (cachedResponses w) \<and> cache (cachedResponses w) \<noteq> None)
         \<or> (\<not> cacheOnce (cachedResponses w) \<and> 0 < cacheSize ps)"
    and "ttl = getMinTTL (heap w) msg (cacheMinTTL ps) (cacheMaxTTL ps) (cacheNegMinTTL ps)
                 (cacheNegMaxTTL ps)"
  shows "\<exists>c'.
     PluginCacheResponse_Eval (at now) getMinTTL ev w ps msg =
       Inr (None, w\<lparr>cachedResponses := (cachedResponses w)\<lparr>cache := Some c', cacheOnce := True\<rparr>,
                    heap := updateTTL now (heap w) msg (now + ttl)\<rparr>)
     \<and> Get c' k = Some \<lparr>cr_expiration = now + ttl, cr_msg = msg\<rparr>
     \<and> msg_records (updateTTL now (heap w) msg (now + ttl)) msg
         = retimed ttl (msg_records (heap w) msg)"
proof -
  have r: "msg_records (updateTTL now (heap w) msg (now + ttl)) msg
         = retimed ttl (msg_records (heap w) msg)"
    using records_updateTTL_self [OF assms(3), of now "now + ttl"] by simp
  let ?entry = "\<lparr>cr_expiration = now + ttl, cr_msg = msg\<rparr>"
  from assms(4) show ?thesis
  proof
    assume a: "cacheOnce (cachedResponses w) \<and> cache (cachedResponses w) \<noteq> None"
    then obtain c where c: "cache (cachedResponses w) = Some c" by blast
    from a have o: "cacheOnce (cachedResponses w)" by simp
    have u: "(cachedResponses w)\<lparr>cache := Some (Insert ev c k ?entry), cacheOnce := True\<rparr>
        = (cachedResponses w)\<lparr>cache := Some (Insert ev c k ?entry)\<rparr>"
      using o by simp
    have "PluginCacheResponse_Eval (at now) getMinTTL ev w ps msg =
       Inr (None, w\<lparr>cachedResponses := (cachedResponses w)\<lparr>cache := Some (Insert ev c k ?entry)\<rparr>,
                    heap := updateTTL now (heap w) msg (now + ttl)\<rparr>)"
      using writer_store_present [OF assms(1,2) o c, of "at now" getMinTTL ev]
      by (simp add: Let_def at_def assms(5))
    then have "PluginCacheResponse_Eval (at now) getMinTTL ev w ps msg =
       Inr (None, w\<lparr>cachedResponses := (cachedResponses w)\<lparr>cache := Some (Insert ev c k ?entry),
                                                            cacheOnce := True\<rparr>,
                    heap := updateTTL now (heap w) msg (now + ttl)\<rparr>)"
      by (simp only: u)
    then show ?thesis
      using r Get_Insert [of ev c k ?entry] by blast
  next
    assume a: "\<not> cacheOnce (cachedResponses w) \<and> 0 < cacheSize ps"
    then have o: "\<not> cacheOnce (cachedResponses w)" and s: "0 < cacheSize ps" by simp_all
    let ?c = "\<lparr>capacity = cacheSize ps, entries = []\<rparr>"
    have "PluginCacheResponse_Eval (at now) getMinTTL ev w ps msg =
       Inr (None, w\<lparr>cachedResponses := (cachedResponses w)\<lparr>cache := Some (Insert ev ?c k ?entry),
                                                            cacheOnce := True\<rparr>,
                    heap := updateTTL now (heap w) msg (now + ttl)\<rparr>)"
      using writer_first_call_constructs [OF assms(1,2) o s, of "at now" getMinTTL ev]
      by (simp add: Let_def at_def assms(5))
    then show ?thesis
      using r Get_Insert [of ev ?c k ?entry] by blast
  qed
qed

theorem writer_stores_entry_and_retimes_response_witness:
  "cacheable ex_response \<and> computeCacheKey ex_ps ex_response = Inr ex_key
   \<and> msg_wf (heap ex_world) ex_response
   \<and> \<not> cacheOnce (cachedResponses ex_world) \<and> 0 < cacheSize ex_ps
   \<and> (\<exists>c'.
        PluginCacheResponse_Eval (at (40 * Second)) ex_policy ex_ev ex_world ex_ps ex_response =
          Inr (None, ex_world\<lparr>cachedResponses :=
                                 (cachedResponses ex_world)\<lparr>cache := Some c', cacheOnce := True\<rparr>,
                               heap := updateTTL (40 * Second) (heap ex_world) ex_response
                                         (40 * Second + 60 * Second)\<rparr>)
        \<and> Get c' ex_key = Some \<lparr>cr_expiration = 40 * Second + 60 * Second, cr_msg = ex_response\<rparr>
        \<and> msg_records (updateTTL (40 * Second) (heap ex_world) ex_response
                          (40 * Second + 60 * Second)) ex_response
            = retimed (60 * Second) (msg_records (heap ex_world) ex_response))"
proof -
  have wf: "msg_wf (heap ex_world) ex_response"
    by (simp add: msg_wf_def msg_addrs_def ex_world_def ex_response_def Msg_zero_def)
  have o: "\<not> cacheOnce (cachedResponses ex_world)" and s: "0 < cacheSize ex_ps"
    by (simp_all add: ex_world_def ex_ps_def)
  have t: "60 * Second = ex_policy (heap ex_world) ex_response (cacheMinTTL ex_ps)
      (cacheMaxTTL ex_ps) (cacheNegMinTTL ex_ps) (cacheNegMaxTTL ex_ps)"
    by (simp add: ex_policy_def ex_ps_def)
  from writer_stores_entry_and_retimes_response
         [where getMinTTL = ex_policy and w = ex_world and ps = ex_ps and msg = ex_response
            and k = ex_key and ttl = "60 * Second" and now = "40 * Second" and ev = ex_ev,
          OF ex_response_cacheable ex_response_key wf _ t] o s
  show ?thesis
    using ex_response_cacheable ex_response_key wf by blast
qed

text \<open>
  As stated, for every cacheable response, the claim fails when the store cannot be
  constructed: with capacity 0 the first call returns the construction error, stores
  nothing and leaves the records of the response as they were.
\<close>

theorem writer_without_store_counterexample:
  "cacheable ex_response \<and> Question ex_response = [ex_question]
   \<and> PluginCacheResponse_Eval (at (40 * Second)) ex_policy ex_ev ex_world (ex_ps\<lparr>cacheSize := 0\<rparr>)
        ex_response
      = Inr (Some (CacheInitError CapacityNotPositive), ex_failed)
   \<and> cache (cachedResponses ex_failed) = None
   \<and> heap ex_failed = heap ex_world"
  using ex_response_cacheable ex_failed_eq [of "at (40 * Second)" ex_policy ex_ev]
  by (simp add: ex_failed_def ex_world_def ex_response_def)

text \<open>
  C7, as amended. Every lookup makes a private deep copy. Two successive lookups of the
  same fresh entry both answer from a synthesised message; the records of the two messages
  and the records of the stored entry are pairwise distinct objects; replacing a record of
  one served copy leaves the records of the other copy and of the stored entry as they
  were; and after both lookups the stored entry has the records it had before.
\<close>

theorem served_copies_are_independent:
  assumes "computeCacheKey ps1 msg1 = Inr k" and "computeCacheKey ps2 msg2 = Inr k"
    and "cache (cachedResponses w) = Some c" and "Get c k = Some cached"
    and "now1 \<le> cr_expiration cached" and "now2 \<le> cr_expiration cached"
    and "msg_wf (heap w) (cr_msg cached)"
  shows "\<exists>s1 h1 s2 h2.
     PluginCache_Eval (at now1) w ps1 msg1 =
       Inr (None, w\<lparr>heap := h1\<rparr>,
            ps1\<lparr>synthResponse := Some s1, action := PluginsActionSynth, cacheHit := True\<rparr>)
     \<and> PluginCache_Eval (at now2) (w\<lparr>heap := h1\<rparr>) ps2 msg2 =
       Inr (None, w\<lparr>heap := h2\<rparr>,
            ps2\<lparr>synthResponse := Some s2, action := PluginsActionSynth, cacheHit := True\<rparr>)
     \<and> set (msg_addrs s1) \<inter> set (msg_addrs s2) = {}
     \<and> set (msg_addrs s1) \<inter> set (msg_addrs (cr_msg cached)) = {}
     \<and> set (msg_addrs s2) \<inter> set (msg_addrs (cr_msg cached)) = {}
     \<and> (\<forall>a r. a \<in> set (msg_addrs s1) \<longrightarrow>
            msg_records (mutate h2 a r) s2 = msg_records h2 s2
            \<and> msg_records (mutate h2 a r) (cr_msg cached) = msg_records h2 (cr_msg cached))
     \<and> (\<forall>a r. a \<in> set (msg_addrs s2) \<longrightarrow>
            msg_records (mutate h2 a r) s1 = msg_records h2 s1
            \<and> msg_records (mutate h2 a r) (cr_msg cached) = msg_records h2 (cr_msg cached))
     \<and> msg_records h2 (cr_msg cached) = msg_records (heap w) (cr_msg cached)"
proof -
  have f1: "\<not> cr_expiration cached < at now1 0" and f2: "\<not> cr_expiration cached < at now2 0"
    using assms(5,6) by (simp_all add: at_def)
  from reader_fresh [where clk = "at now1", OF assms(1,3,4) f1]
  obtain s1 h1 where r1:
    "PluginCache_Eval (at now1) w ps1 msg1 =
       Inr (None, w\<lparr>heap := h1\<rparr>,
            ps1\<lparr>synthResponse := Some s1, action := PluginsActionSynth, cacheHit := True\<rparr>)"
    and a1: "set (msg_addrs s1) = {length (heap w) ..< length h1}"
    and t1: "take (length (heap w)) h1 = heap w"
    by blast
  have c1: "cache (cachedResponses (w\<lparr>heap := h1\<rparr>)) = Some c"
    using assms(3) by simp
  from reader_fresh [where clk = "at now2", OF assms(2) c1 assms(4) f2]
  obtain s2 h2 where r2:
    "PluginCache_Eval (at now2) (w\<lparr>heap := h1\<rparr>) ps2 msg2 =
       Inr (None, w\<lparr>heap := h2\<rparr>,
            ps2\<lparr>synthResponse := Some s2, action := PluginsActionSynth, cacheHit := True\<rparr>)"
    and a2: "set (msg_addrs s2) = {length h1 ..< length h2}"
    and t2: "take (length h1) h2 = h1"
    by auto
  have a0: "set (msg_addrs (cr_msg cached)) \<subseteq> {..< length (heap w)}"
    using assms(7) by (auto simp add: msg_wf_def list_all_iff)
  have le: "length (heap w) \<le> length h1"
    using t1 by (rule take_length_le)
  have d12: "set (msg_addrs s1) \<inter> set (msg_addrs s2) = {}"
    using a1 a2 by auto
  have d10: "set (msg_addrs s1) \<inter> set (msg_addrs (cr_msg cached)) = {}"
    using a1 a0 by auto
  have d20: "set (msg_addrs s2) \<inter> set (msg_addrs (cr_msg cached)) = {}"
    using a2 a0 le by auto
  have m1: "\<forall>a r. a \<in> set (msg_addrs s1) \<longrightarrow>
            msg_records (mutate h2 a r) s2 = msg_records h2 s2
            \<and> msg_records (mutate h2 a r) (cr_msg cached) = msg_records h2 (cr_msg cached)"
    using d12 d10 by (auto intro: msg_records_mutate)
  have m2: "\<forall>a r. a \<in> set (msg_addrs s2) \<longrightarrow>
            msg_records (mutate h2 a r) s1 = msg_records h2 s1
            \<and> msg_records (mutate h2 a r) (cr_msg cached) = msg_records h2 (cr_msg cached)"
    using d12 d20 by (auto intro: msg_records_mutate)
  have "take (length (heap w)) h2 = heap w"
    by (rule take_take_prefix [OF t1 t2])
  then have u: "msg_records h2 (cr_msg cached) = msg_records (heap w) (cr_msg cached)"
    by (rule msg_records_prefix [OF assms(7)])
  from r1 r2 d12 d10 d20 m1 m2 u show ?thesis
    by blast
qed


theorem served_copies_are_independent_witness:
  "computeCacheKey ex_ps ex_query = Inr ex_key \<and> computeCacheKey ex_ps ex_Query = Inr ex_key
   \<and> cache (cachedResponses ex_written) = Some ex_store \<and> Get ex_store ex_key = Some ex_entry
   \<and> 70 * Second \<le> cr_expiration ex_entry \<and> 80 * Second \<le> cr_expiration ex_entry
   \<and> msg_wf (heap ex_written) (cr_msg ex_entry)
   \<and> (\<exists>s1 h1 s2 h2.
        PluginCache_Eval (at (70 * Second)) ex_written ex_ps ex_query =
          Inr (None, ex_written\<lparr>heap := h1\<rparr>,
               ex_ps\<lparr>synthResponse := Some s1, action := PluginsActionSynth, cacheHit := True\<rparr>)
        \<and> PluginCache_Eval (at (80 * Second)) (ex_written\<lparr>heap := h1\<rparr>) ex_ps ex_Query =
          Inr (None, ex_written\<lparr>heap := h2\<rparr>,
               ex_ps\<lparr>synthResponse := Some s2, action := PluginsActionSynth, cacheHit := True\<rparr>)
        \<and> set (msg_addrs s1) \<inter> set (msg_addrs s2) = {}
        \<and> set (msg_addrs s1) \<inter> set (msg_addrs (cr_msg ex_entry)) = {}
        \<and> set (msg_addrs s2) \<inter> set (msg_addrs (cr_msg ex_entry)) = {}
        \<and> msg_records h2 (cr_msg ex_entry) = msg_records (heap ex_written) (cr_msg ex_entry))"
proof -
  have t: "70 * Second \<le> cr_expiration ex_entry" "80 * Second \<le> cr_expiration ex_entry"
    by (simp_all add: ex_entry_def Second_def)
  have wf: "msg_wf (heap ex_written) (cr_msg ex_entry)"
    by (simp add: msg_wf_def msg_addrs_def ex_written_def ex_entry_def ex_response_def Msg_zero_def)
  from served_copies_are_independent
         [OF ex_key_eq ex_Key_eq ex_written_store ex_store_entry t wf]
  show ?thesis
    using ex_key_eq ex_Key_eq ex_written_store ex_store_entry t wf by blast
qed

text \<open>
  As stated, including the original response, the claim fails: the writer stores
  \<^verbatim>\<open>*msg\<close>, whose record sections point to the records of the response. The stored
  entry of the sample has its record at the address of the response's record; the writer's
  own rewrite of the response changes it, a later change of the response's record changes
  it again, and the next lookup serves the changed data.
\<close>

theorem stored_entry_shares_response_records_counterexample:
  "PluginCacheResponse_Eval (at (40 * Second)) ex_policy ex_ev ex_world ex_ps ex_response
     = Inr (None, ex_written)
   \<and> Get ex_store ex_key = Some ex_entry
   \<and> msg_addrs (cr_msg ex_entry) = msg_addrs ex_response
   \<and> msg_records (heap ex_world) (cr_msg ex_entry) \<noteq> msg_records (heap ex_written) (cr_msg ex_entry)
   \<and> msg_records (mutate (heap ex_written) 0 ex_rr_changed) (cr_msg ex_entry)
       \<noteq> msg_records (heap ex_written) (cr_msg ex_entry)
   \<and> PluginCache_Eval (at (70 * Second))
         (ex_written\<lparr>heap := mutate (heap ex_written) 0 ex_rr_changed\<rparr>) ex_ps ex_query
       = Inr (None, ex_written\<lparr>heap := [ex_rr_changed, ex_rr_changed\<lparr>Ttl := 30 * Second\<rparr>]\<rparr>,
              ex_ps\<lparr>synthResponse := Some ex_synth, action := PluginsActionSynth, cacheHit := True\<rparr>)"
proof -
  have m: "mutate (heap ex_written) 0 ex_rr_changed = [ex_rr_changed]"
    by (simp add: mutate_def ex_written_def)
  have "70 * Second \<le> 100 * Second"
    by (simp add: Second_def)
  from ex_read_any [OF this, of ex_rr_changed]
  have r: "PluginCache_Eval (at (70 * Second)) (ex_written\<lparr>heap := [ex_rr_changed]\<rparr>) ex_ps ex_query
       = Inr (None, ex_written\<lparr>heap := [ex_rr_changed, ex_rr_changed\<lparr>Ttl := 30 * Second\<rparr>]\<rparr>,
              ex_ps\<lparr>synthResponse := Some ex_synth, action := PluginsActionSynth, cacheHit := True\<rparr>)"
    by simp
  have d: "msg_records (heap ex_world) (cr_msg ex_entry) \<noteq> msg_records (heap ex_written) (cr_msg ex_entry)"
    "msg_records [ex_rr_changed] (cr_msg ex_entry) \<noteq> msg_records (heap ex_written) (cr_msg ex_entry)"
    by (simp_all add: msg_records_def ex_world_def ex_written_def ex_entry_def ex_response_def
        Msg_zero_def ex_rr_changed_def ex_rr_def Second_def)
  show ?thesis
    using ex_written_eq ex_store_entry r d
    by (simp add: m) (simp add: ex_entry_def)
qed

end
